theory Spec2Isabelle
  imports Complex_Main "HOL-Library.AList"
begin

section \<open>Documenter-MCP: the documentation analysis engine\<close>

text \<open>
  A shallow embedding of the Python sources \<^verbatim>\<open>src/models.py\<close>, \<^verbatim>\<open>src/parsers/base.py\<close>,
  \<^verbatim>\<open>src/analyzers/checker.py\<close>, \<^verbatim>\<open>src/analyzers/evaluator.py\<close> and
  \<^verbatim>\<open>src/core/orchestrator.py\<close>.

  Conventions of the embedding.
  \<^item> Python \<^verbatim>\<open>str\<close> is \<open>string\<close>; a \<open>char\<close> stands for one code point below 256. The
    character classes below are Python's classes restricted to that range.
  \<^item> An object that the code mutates is a value that the model returns updated.
  \<^item> Python's \<^verbatim>\<open>re\<close> module is a backtracking matcher; it is modelled by a matcher that
    lists the ways a pattern can match in the order in which backtracking tries them.
  \<^item> A Python \<^verbatim>\<open>set\<close> of strings is the list of its members in order of first insertion;
    the order in which a \<^verbatim>\<open>for\<close> loop visits it is left open (see \<open>set_iter\<close>).
  \<^item> A Python \<^verbatim>\<open>float\<close> that holds a quotient of two counts is the exact quotient in \<open>real\<close>.
\<close>

subsection \<open>Characters and strings\<close>

abbreviation NL :: char where "NL \<equiv> CHR 0x0A"

text \<open>\<^verbatim>\<open>str.isspace\<close> and the pattern class \<^verbatim>\<open>\s\<close>, for code points below 256.\<close>

definition is_space :: "char \<Rightarrow> bool" where
  "is_space c = (let n = (of_char c :: nat) in
     (9 \<le> n \<and> n \<le> 13) \<or> (28 \<le> n \<and> n \<le> 32) \<or> n = 133 \<or> n = 160)"

text \<open>The pattern class \<^verbatim>\<open>\w\<close>: alphanumeric or underscore, for code points below 256.\<close>

definition is_word :: "char \<Rightarrow> bool" where
  "is_word c = (let n = (of_char c :: nat) in
     (48 \<le> n \<and> n \<le> 57) \<or> (65 \<le> n \<and> n \<le> 90) \<or> n = 95 \<or> (97 \<le> n \<and> n \<le> 122) \<or>
     n = 170 \<or> n = 178 \<or> n = 179 \<or> n = 181 \<or> n = 185 \<or> n = 186 \<or>
     (188 \<le> n \<and> n \<le> 190) \<or> (192 \<le> n \<and> n \<le> 214) \<or> (216 \<le> n \<and> n \<le> 246) \<or>
     (248 \<le> n \<and> n \<le> 255))"

definition is_upper_AZ :: "char \<Rightarrow> bool" where
  "is_upper_AZ c = (let n = (of_char c :: nat) in 65 \<le> n \<and> n \<le> 90)"

definition is_lower_az :: "char \<Rightarrow> bool" where
  "is_lower_az c = (let n = (of_char c :: nat) in 97 \<le> n \<and> n \<le> 122)"

text \<open>\<^verbatim>\<open>str.lower\<close> on one code point below 256.\<close>

definition chr_lower :: "char \<Rightarrow> char" where
  "chr_lower c = (let n = (of_char c :: nat) in
     if (65 \<le> n \<and> n \<le> 90) \<or> (192 \<le> n \<and> n \<le> 222 \<and> n \<noteq> 215) then char_of (n + 32) else c)"

definition str_lower :: "string \<Rightarrow> string" where
  "str_lower s = map chr_lower s"

definition lstrip :: "string \<Rightarrow> string" where
  "lstrip s = dropWhile is_space s"

definition rstrip :: "string \<Rightarrow> string" where
  "rstrip s = rev (dropWhile is_space (rev s))"

definition strip :: "string \<Rightarrow> string" where
  "strip s = rstrip (lstrip s)"

text \<open>\<^verbatim>\<open>s.split(sep)\<close> for a one-character separator: never empty, one more piece than separators.\<close>

fun str_split :: "char \<Rightarrow> string \<Rightarrow> string list" where
  "str_split sep [] = [[]]"
| "str_split sep (c # cs) =
     (if c = sep then [] # str_split sep cs
      else (case str_split sep cs of
              [] \<Rightarrow> [[c]]
            | w # ws \<Rightarrow> (c # w) # ws))"

text \<open>\<^verbatim>\<open>s.split()\<close>: the maximal runs of characters that are not whitespace.\<close>

fun words_from :: "string \<Rightarrow> string \<Rightarrow> string list" where
  "words_from cur [] = (if cur = [] then [] else [rev cur])"
| "words_from cur (c # cs) =
     (if is_space c then (if cur = [] then words_from [] cs else rev cur # words_from [] cs)
      else words_from (c # cur) cs)"

definition str_words :: "string \<Rightarrow> string list" where
  "str_words s = words_from [] s"

text \<open>\<^verbatim>\<open>sep.join(parts)\<close>.\<close>

fun str_join :: "string \<Rightarrow> string list \<Rightarrow> string" where
  "str_join sep [] = []"
| "str_join sep [x] = x"
| "str_join sep (x # y # ys) = x @ sep @ str_join sep (y # ys)"

definition startswith :: "string \<Rightarrow> string \<Rightarrow> bool" where
  "startswith s p = (take (length p) s = p)"

definition endswith :: "string \<Rightarrow> string \<Rightarrow> bool" where
  "endswith s p = (length p \<le> length s \<and> drop (length s - length p) s = p)"

text \<open>\<^verbatim>\<open>p in s\<close> for strings: \<open>p\<close> occurs in \<open>s\<close> as a contiguous piece.\<close>

fun str_contains :: "string \<Rightarrow> string \<Rightarrow> bool" where
  "str_contains [] p = (p = [])"
| "str_contains (c # cs) p = (startswith (c # cs) p \<or> str_contains cs p)"

text \<open>The slice \<^verbatim>\<open>s[a:b]\<close> for \<open>a \<le> b\<close>.\<close>

definition slice :: "string \<Rightarrow> nat \<Rightarrow> nat \<Rightarrow> string" where
  "slice s a b = take (b - a) (drop a s)"

text \<open>Truthiness of an optional string: \<^verbatim>\<open>None\<close> and \<^verbatim>\<open>""\<close> are false.\<close>

definition truthy :: "string option \<Rightarrow> bool" where
  "truthy d = (case d of None \<Rightarrow> False | Some s \<Rightarrow> s \<noteq> [])"

subsection \<open>Regular expressions as \<^verbatim>\<open>re\<close> matches them\<close>

text \<open>
  The pattern syntax the sources use. \<open>Chr p\<close> matches one character that satisfies \<open>p\<close>;
  \<open>Star\<close> is the greedy \<^verbatim>\<open>*\<close> and \<open>LazyStar\<close> the lazy \<^verbatim>\<open>*?\<close>; \<open>Grp n\<close> is the \<open>n\<close>-th capturing
  group; \<open>Look\<close> is the lookahead \<^verbatim>\<open>(?=...)\<close>; \<open>Bos\<close> and \<open>Eos\<close> are \<^verbatim>\<open>^\<close> and \<^verbatim>\<open>$\<close> without
  \<^verbatim>\<open>re.MULTILINE\<close>; \<open>WordB\<close> is \<^verbatim>\<open>\b\<close>.
\<close>

datatype regex =
    Chr "char \<Rightarrow> bool"
  | Eps
  | Seq regex regex
  | Alt regex regex
  | Star regex
  | LazyStar regex
  | Grp nat regex
  | Look regex
  | Bos
  | Eos
  | WordB

type_synonym caps = "(nat \<times> nat \<times> nat) list"

text \<open>
  \<open>rmatch s r (i, c)\<close>: the ways \<open>r\<close> matches in \<open>s\<close> from position \<open>i\<close> with the groups \<open>c\<close>
  captured so far, each an end position with its groups, in the order backtracking
  tries them. A repetition goes round again only after its body has consumed a
  character.
\<close>

function rmatch :: "string \<Rightarrow> regex \<Rightarrow> nat \<times> caps \<Rightarrow> (nat \<times> caps) list" where
  "rmatch s (Chr p) (i, c) = (if i < length s \<and> p (s ! i) then [(Suc i, c)] else [])"
| "rmatch s Eps st = [st]"
| "rmatch s (Seq a b) st = concat (map (rmatch s b) (rmatch s a st))"
| "rmatch s (Alt a b) st = rmatch s a st @ rmatch s b st"
| "rmatch s (Star a) (i, c) =
     concat (map (\<lambda>(j, c'). if i < j \<and> j \<le> length s then rmatch s (Star a) (j, c') else [])
                 (rmatch s a (i, c))) @ [(i, c)]"
| "rmatch s (LazyStar a) (i, c) =
     (i, c) # concat (map (\<lambda>(j, c'). if i < j \<and> j \<le> length s then rmatch s (LazyStar a) (j, c') else [])
                 (rmatch s a (i, c)))"
| "rmatch s (Grp n a) (i, c) = map (\<lambda>(j, c'). (j, (n, i, j) # c')) (rmatch s a (i, c))"
| "rmatch s (Look a) st = (if rmatch s a st = [] then [] else [st])"
| "rmatch s Bos (i, c) = (if i = 0 then [(i, c)] else [])"
| "rmatch s Eos (i, c) =
     (if i = length s \<or> (Suc i = length s \<and> s ! i = NL) then [(i, c)] else [])"
| "rmatch s WordB (i, c) =
     (let word_before = (0 < i \<and> i \<le> length s \<and> is_word (s ! (i - 1)));
          word_after = (i < length s \<and> is_word (s ! i))
      in if word_before \<noteq> word_after then [(i, c)] else [])"
  by pat_completeness auto
termination
  by (relation "measures [\<lambda>(s, r, st). size r, \<lambda>(s, r, st). length s - fst st]") auto

text \<open>Pattern shorthands: a literal, a literal under \<^verbatim>\<open>re.IGNORECASE\<close>, \<^verbatim>\<open>+\<close>, \<^verbatim>\<open>?\<close>, classes.\<close>

definition lit :: "char \<Rightarrow> regex" where
  "lit ch = Chr (\<lambda>x. x = ch)"

definition liti :: "char \<Rightarrow> regex" where
  "liti ch = Chr (\<lambda>x. chr_lower x = chr_lower ch)"

definition str :: "string \<Rightarrow> regex" where
  "str cs = foldr (\<lambda>ch r. Seq (lit ch) r) cs Eps"

definition stri :: "string \<Rightarrow> regex" where
  "stri cs = foldr (\<lambda>ch r. Seq (liti ch) r) cs Eps"

definition plus :: "regex \<Rightarrow> regex" where
  "plus r = Seq r (Star r)"

definition opt :: "regex \<Rightarrow> regex" where
  "opt r = Alt r Eps"

definition seqs :: "regex list \<Rightarrow> regex" where
  "seqs rs = foldr Seq rs Eps"

definition alts :: "regex list \<Rightarrow> regex" where
  "alts rs = (case rs of [] \<Rightarrow> Eps | _ \<Rightarrow> foldr Alt (butlast rs) (last rs))"

definition ws :: regex where "ws = Chr is_space"
definition wd :: regex where "wd = Chr is_word"
definition dot :: regex where "dot = Chr (\<lambda>x. x \<noteq> NL)"
definition dot_all :: regex where "dot_all = Chr (\<lambda>x. True)"

text \<open>
  A match is its start, its end and its groups. \<open>match_at\<close> tries one start position; with
  \<open>must_advance\<close> (set by \<^verbatim>\<open>finditer\<close> after an empty match) a match may not be empty.
\<close>

type_synonym rmatch_result = "nat \<times> nat \<times> caps"

definition match_at :: "string \<Rightarrow> regex \<Rightarrow> nat \<Rightarrow> bool \<Rightarrow> (nat \<times> caps) list" where
  "match_at s r i must_advance =
     (let ms = rmatch s r (i, []) in if must_advance then filter (\<lambda>(j, c). j \<noteq> i) ms else ms)"

fun first_match :: "string \<Rightarrow> regex \<Rightarrow> bool \<Rightarrow> nat list \<Rightarrow> rmatch_result option" where
  "first_match s r adv [] = None"
| "first_match s r adv (i # rest) =
     (case match_at s r i adv of
        [] \<Rightarrow> first_match s r False rest
      | (j, c) # _ \<Rightarrow> Some (i, j, c))"

text \<open>\<^verbatim>\<open>re.search(r, s)\<close> and \<^verbatim>\<open>re.match(r, s)\<close>.\<close>

definition re_search :: "regex \<Rightarrow> string \<Rightarrow> rmatch_result option" where
  "re_search r s = first_match s r False [0..<Suc (length s)]"

definition re_match :: "regex \<Rightarrow> string \<Rightarrow> rmatch_result option" where
  "re_match r s = first_match s r False [0]"

definition re_found :: "regex \<Rightarrow> string \<Rightarrow> bool" where
  "re_found r s = (re_search r s \<noteq> None)"

text \<open>\<^verbatim>\<open>m.group(n)\<close>; a group that took no part in the match is \<^verbatim>\<open>None\<close>.\<close>

definition group :: "string \<Rightarrow> rmatch_result \<Rightarrow> nat \<Rightarrow> string option" where
  "group s m n = (case map_of (snd (snd m)) n of None \<Rightarrow> None | Some (a, b) \<Rightarrow> Some (slice s a b))"

definition group_str :: "string \<Rightarrow> rmatch_result \<Rightarrow> nat \<Rightarrow> string" where
  "group_str s m n = (case group s m n of None \<Rightarrow> [] | Some g \<Rightarrow> g)"

declare rmatch.simps [simp del]
lemma rmatch_bounds:
  "(j, c') \<in> set (rmatch s r (i, c)) \<Longrightarrow> i \<le> j \<and> (i \<le> length s \<longrightarrow> j \<le> length s)"
proof (induction s r "(i, c)" arbitrary: i c j c' rule: rmatch.induct)
  case (3 s a b)
  from 3(3) obtain k d where mid: "(k, d) \<in> set (rmatch s a (i, c))"
    and fin: "(j, c') \<in> set (rmatch s b (k, d))"
    by (auto simp: rmatch.simps(3))
  from 3(1)[OF mid] 3(2)[OF mid fin] show ?case by auto
next
  case (4 s a b)
  from 4(3) have "(j, c') \<in> set (rmatch s a (i, c)) \<or> (j, c') \<in> set (rmatch s b (i, c))"
    by (simp add: rmatch.simps(4))
  with 4(1) 4(2) show ?case by blast
next
  case (5 s a i c)
  from 5(3) have "(j, c') = (i, c) \<or> (\<exists>k d. (k, d) \<in> set (rmatch s a (i, c)) \<and> i < k \<and> k \<le> length s
      \<and> (j, c') \<in> set (rmatch s (Star a) (k, d)))"
    by (subst (asm) rmatch.simps(5)) (auto split: if_splits)
  then show ?case
  proof
    assume "(j, c') = (i, c)"
    then show ?thesis by simp
  next
    assume "\<exists>k d. (k, d) \<in> set (rmatch s a (i, c)) \<and> i < k \<and> k \<le> length s
      \<and> (j, c') \<in> set (rmatch s (Star a) (k, d))"
    then obtain k d where mid: "(k, d) \<in> set (rmatch s a (i, c))"
      and guard: "i < k \<and> k \<le> length s"
      and fin: "(j, c') \<in> set (rmatch s (Star a) (k, d))"
      by blast
    from 5(2)[OF mid refl guard fin] guard show ?thesis by auto
  qed
next
  case (6 s a i c)
  from 6(3) have "(j, c') = (i, c) \<or> (\<exists>k d. (k, d) \<in> set (rmatch s a (i, c)) \<and> i < k \<and> k \<le> length s
      \<and> (j, c') \<in> set (rmatch s (LazyStar a) (k, d)))"
    by (subst (asm) rmatch.simps(6)) (auto split: if_splits)
  then show ?case
  proof
    assume "(j, c') = (i, c)"
    then show ?thesis by simp
  next
    assume "\<exists>k d. (k, d) \<in> set (rmatch s a (i, c)) \<and> i < k \<and> k \<le> length s
      \<and> (j, c') \<in> set (rmatch s (LazyStar a) (k, d))"
    then obtain k d where mid: "(k, d) \<in> set (rmatch s a (i, c))"
      and guard: "i < k \<and> k \<le> length s"
      and fin: "(j, c') \<in> set (rmatch s (LazyStar a) (k, d))"
      by blast
    from 6(2)[OF mid refl guard fin] guard show ?thesis by auto
  qed
next
  case (7 s n a i c)
  from 7(2) obtain d where "(j, d) \<in> set (rmatch s a (i, c))"
    by (auto simp: rmatch.simps(7))
  with 7(1) show ?case by blast
qed (auto simp: rmatch.simps Let_def split: if_splits)

lemma match_at_bounds:
  "(j, c) \<in> set (match_at s r i adv) \<Longrightarrow> i \<le> j \<and> (i \<le> length s \<longrightarrow> j \<le> length s) \<and> (adv \<longrightarrow> j \<noteq> i)"
  using rmatch_bounds[of j c s r i "[]"] by (auto simp: match_at_def Let_def split: if_splits)

lemma first_match_bounds:
  "first_match s r adv ps = Some (i, j, c) \<Longrightarrow> distinct ps \<Longrightarrow>
     i \<in> set ps \<and> i \<le> j \<and> (i \<le> length s \<longrightarrow> j \<le> length s) \<and> (adv \<and> i = hd ps \<longrightarrow> j \<noteq> i)"
proof (induction ps arbitrary: adv)
  case Nil
  then show ?case by simp
next
  case (Cons p ps)
  show ?case
  proof (cases "match_at s r p adv")
    case Nil
    with Cons.prems have fm: "first_match s r False ps = Some (i, j, c)" by simp
    from Cons.IH[OF fm] Cons.prems(2) show ?thesis by auto
  next
    case (Cons m ms)
    obtain j' c' where m: "m = (j', c')" by (cases m)
    with Cons Cons.prems(1) have eq: "i = p" "j = j'" "c = c'" by auto
    from Cons m have "(j', c') \<in> set (match_at s r p adv)" by simp
    from match_at_bounds[OF this] eq show ?thesis by auto
  qed
qed

text \<open>
  \<^verbatim>\<open>re.finditer(r, s)\<close>: the matches from left to right, each search starting where the
  last match ended; after an empty match the next one must advance.
\<close>

function finditer_from :: "regex \<Rightarrow> string \<Rightarrow> nat \<Rightarrow> bool \<Rightarrow> rmatch_result list" where
  "finditer_from r s start adv =
     (case first_match s r adv [start..<Suc (length s)] of
        None \<Rightarrow> []
      | Some (i, j, c) \<Rightarrow> (i, j, c) # finditer_from r s j (j = i))"
  by pat_completeness auto
termination
proof (relation "measure (\<lambda>(r, s, start, adv). 2 * (Suc (length s) - start) + (if adv then 0 else 1))", goal_cases)
  case 1
  then show ?case by simp
next
  case (2 r s start adv m i rest j c)
  then have fm: "first_match s r adv [start..<Suc (length s)] = Some (i, j, c)" by simp
  have b: "i \<in> set [start..<Suc (length s)] \<and> i \<le> j \<and> (i \<le> length s \<longrightarrow> j \<le> length s)
      \<and> (adv \<and> i = hd [start..<Suc (length s)] \<longrightarrow> j \<noteq> i)"
    by (rule first_match_bounds[OF fm]) simp
  then have le: "start \<le> length s" by auto
  then have hd: "hd [start..<Suc (length s)] = start" by (simp add: upt_rec)
  from b le hd show ?case by (auto split: if_splits)
qed

declare finditer_from.simps [simp del]

definition re_finditer :: "regex \<Rightarrow> string \<Rightarrow> rmatch_result list" where
  "re_finditer r s = finditer_from r s 0 False"


subsection \<open>The data model (\<^verbatim>\<open>models.py\<close>)\<close>

datatype DocumentationStatus = MISSING | INCOMPLETE | OUTDATED | GOOD | EXCELLENT

datatype CodeElementType = FUNCTION | METHOD | CLASS | MODULE | VARIABLE | CONSTANT | PROPERTY

text \<open>\<^verbatim>\<open>element_type.value.title()\<close>, the enum's value with its first letter in upper case.\<close>

fun element_type_title :: "CodeElementType \<Rightarrow> string" where
  "element_type_title FUNCTION = ''Function''"
| "element_type_title METHOD = ''Method''"
| "element_type_title CLASS = ''Class''"
| "element_type_title MODULE = ''Module''"
| "element_type_title VARIABLE = ''Variable''"
| "element_type_title CONSTANT = ''Constant''"
| "element_type_title PROPERTY = ''Property''"

text \<open>The attributes of a \<^verbatim>\<open>pathlib.Path\<close> that the code reads.\<close>

record Path =
  path_str :: string
  stem :: string
  suffix :: string

record Parameter =
  param_name :: string
  type_hint :: "string option"
  default_value :: "string option"
  param_description :: "string option"
  is_required :: bool

record ReturnInfo =
  return_type_hint :: "string option"
  return_description :: "string option"

record ExceptionInfo =
  exception_type :: string
  exception_description :: "string option"
  conditions :: "string option"

text \<open>
  \<^verbatim>\<open>CodeElement\<close>, with the fields that the parser, the checker and the evaluator read or
  write (\<^verbatim>\<open>attributes\<close>, \<^verbatim>\<open>suggestions\<close>, \<^verbatim>\<open>complexity_score\<close>, \<^verbatim>\<open>is_deprecated\<close> and \<^verbatim>\<open>tags\<close>
  are never touched and are left out).

  The \<^verbatim>\<open>methods\<close> of a class are objects of their own, which the class owns. The
  \<^verbatim>\<open>classes\<close> and \<^verbatim>\<open>functions\<close> of a module are the very objects of the file's flat list
  of elements: \<open>module_classes\<close> and \<open>module_functions\<close> hold their positions in that
  list, so that what is written to an element of the list is what the module refers to.
\<close>

datatype CodeElement = CodeElement
  (name: string)
  (element_type: CodeElementType)
  (file_path: Path)
  (line_number: int)
  (end_line_number: "int option")
  (docstring: "string option")
  (summary: "string option")
  (description: "string option")
  (parameters: "Parameter list")
  (return_info: "ReturnInfo option")
  (exceptions: "ExceptionInfo list")
  (methods: "CodeElement list")
  (module_classes: "nat list")
  (module_functions: "nat list")
  (status: DocumentationStatus)
  (issues: "string list")
  (visibility: string)

text \<open>The dataclass defaults: no documentation, status \<^verbatim>\<open>MISSING\<close>, visibility \<^verbatim>\<open>"public"\<close>.\<close>

definition new_element :: "string \<Rightarrow> CodeElementType \<Rightarrow> Path \<Rightarrow> int \<Rightarrow> CodeElement" where
  "new_element n t p l = CodeElement n t p l None None None None [] None [] [] [] [] MISSING [] ''public''"

text \<open>Assignments to one attribute of an element.\<close>

definition set_end_line_number :: "int option \<Rightarrow> CodeElement \<Rightarrow> CodeElement" where
  "set_end_line_number v e = CodeElement (name e) (element_type e) (file_path e) (line_number e)
     v (docstring e) (summary e) (description e) (parameters e) (return_info e)
     (exceptions e) (methods e) (module_classes e) (module_functions e) (status e) (issues e) (visibility e)"

definition set_docstring :: "string option \<Rightarrow> CodeElement \<Rightarrow> CodeElement" where
  "set_docstring v e = CodeElement (name e) (element_type e) (file_path e) (line_number e)
     (end_line_number e) v (summary e) (description e) (parameters e) (return_info e)
     (exceptions e) (methods e) (module_classes e) (module_functions e) (status e) (issues e) (visibility e)"

definition set_summary :: "string option \<Rightarrow> CodeElement \<Rightarrow> CodeElement" where
  "set_summary v e = CodeElement (name e) (element_type e) (file_path e) (line_number e)
     (end_line_number e) (docstring e) v (description e) (parameters e) (return_info e)
     (exceptions e) (methods e) (module_classes e) (module_functions e) (status e) (issues e) (visibility e)"

definition set_description :: "string option \<Rightarrow> CodeElement \<Rightarrow> CodeElement" where
  "set_description v e = CodeElement (name e) (element_type e) (file_path e) (line_number e)
     (end_line_number e) (docstring e) (summary e) v (parameters e) (return_info e)
     (exceptions e) (methods e) (module_classes e) (module_functions e) (status e) (issues e) (visibility e)"

definition set_parameters :: "Parameter list \<Rightarrow> CodeElement \<Rightarrow> CodeElement" where
  "set_parameters v e = CodeElement (name e) (element_type e) (file_path e) (line_number e)
     (end_line_number e) (docstring e) (summary e) (description e) v (return_info e)
     (exceptions e) (methods e) (module_classes e) (module_functions e) (status e) (issues e) (visibility e)"

definition set_return_info :: "ReturnInfo option \<Rightarrow> CodeElement \<Rightarrow> CodeElement" where
  "set_return_info v e = CodeElement (name e) (element_type e) (file_path e) (line_number e)
     (end_line_number e) (docstring e) (summary e) (description e) (parameters e) v
     (exceptions e) (methods e) (module_classes e) (module_functions e) (status e) (issues e) (visibility e)"

definition set_exceptions :: "ExceptionInfo list \<Rightarrow> CodeElement \<Rightarrow> CodeElement" where
  "set_exceptions v e = CodeElement (name e) (element_type e) (file_path e) (line_number e)
     (end_line_number e) (docstring e) (summary e) (description e) (parameters e) (return_info e)
     v (methods e) (module_classes e) (module_functions e) (status e) (issues e) (visibility e)"

definition set_methods :: "CodeElement list \<Rightarrow> CodeElement \<Rightarrow> CodeElement" where
  "set_methods v e = CodeElement (name e) (element_type e) (file_path e) (line_number e)
     (end_line_number e) (docstring e) (summary e) (description e) (parameters e) (return_info e)
     (exceptions e) v (module_classes e) (module_functions e) (status e) (issues e) (visibility e)"

definition set_module_classes :: "nat list \<Rightarrow> CodeElement \<Rightarrow> CodeElement" where
  "set_module_classes v e = CodeElement (name e) (element_type e) (file_path e) (line_number e)
     (end_line_number e) (docstring e) (summary e) (description e) (parameters e) (return_info e)
     (exceptions e) (methods e) v (module_functions e) (status e) (issues e) (visibility e)"

definition set_module_functions :: "nat list \<Rightarrow> CodeElement \<Rightarrow> CodeElement" where
  "set_module_functions v e = CodeElement (name e) (element_type e) (file_path e) (line_number e)
     (end_line_number e) (docstring e) (summary e) (description e) (parameters e) (return_info e)
     (exceptions e) (methods e) (module_classes e) v (status e) (issues e) (visibility e)"

definition set_status :: "DocumentationStatus \<Rightarrow> CodeElement \<Rightarrow> CodeElement" where
  "set_status v e = CodeElement (name e) (element_type e) (file_path e) (line_number e)
     (end_line_number e) (docstring e) (summary e) (description e) (parameters e) (return_info e)
     (exceptions e) (methods e) (module_classes e) (module_functions e) v (issues e) (visibility e)"

definition set_issues :: "string list \<Rightarrow> CodeElement \<Rightarrow> CodeElement" where
  "set_issues v e = CodeElement (name e) (element_type e) (file_path e) (line_number e)
     (end_line_number e) (docstring e) (summary e) (description e) (parameters e) (return_info e)
     (exceptions e) (methods e) (module_classes e) (module_functions e) (status e) v (visibility e)"

definition set_visibility :: "string \<Rightarrow> CodeElement \<Rightarrow> CodeElement" where
  "set_visibility v e = CodeElement (name e) (element_type e) (file_path e) (line_number e)
     (end_line_number e) (docstring e) (summary e) (description e) (parameters e) (return_info e)
     (exceptions e) (methods e) (module_classes e) (module_functions e) (status e) (issues e) v"

text \<open>
  \<^verbatim>\<open>DocumentationIssue\<close>. Its \<open>element\<close> is the element the issue was raised for, as it was
  when the issue was raised.
\<close>

record DocumentationIssue =
  element :: CodeElement
  issue_type :: string
  severity :: string
  message :: string
  suggestion :: "string option"
  issue_line_number :: "int option"

record FileAnalysisResult =
  result_file_path :: Path
  language :: string
  elements :: "CodeElement list"
  file_issues :: "DocumentationIssue list"
  coverage_score :: real
  total_elements :: nat
  documented_elements :: nat

text \<open>A \<^verbatim>\<open>dict\<close> keeps its keys in insertion order: an association list.\<close>

record ProjectAnalysisResult =
  project_path :: Path
  files :: "FileAnalysisResult list"
  overall_coverage :: real
  project_total_elements :: nat
  project_documented_elements :: nat
  issues_by_severity :: "(string \<times> nat) list"
  coverage_by_language :: "(string \<times> real) list"

subsection \<open>The syntax tree of a Python file\<close>

text \<open>
  What \<^verbatim>\<open>ast.parse\<close> returns, as far as the parser looks at it. \<open>FunctionDef\<close> holds
  \<^verbatim>\<open>name\<close>, \<^verbatim>\<open>args.args\<close>, \<^verbatim>\<open>args.defaults\<close>, \<^verbatim>\<open>body\<close>, \<^verbatim>\<open>returns\<close>, \<^verbatim>\<open>lineno\<close> and the attribute
  \<^verbatim>\<open>parent\<close> when the node has one (\<^verbatim>\<open>ast.parse\<close> sets none); \<open>ClassDef\<close> holds \<^verbatim>\<open>name\<close>,
  \<^verbatim>\<open>body\<close>, \<^verbatim>\<open>lineno\<close> and \<^verbatim>\<open>end_lineno\<close>; \<open>ExprStr\<close> is an expression statement whose
  value is a string constant; \<open>Other\<close> is any other node with its child nodes.
  An annotation and a return annotation are kept as the text that
  \<^verbatim>\<open>_get_type_annotation\<close> gives for them, which catches whatever \<^verbatim>\<open>ast.unparse\<close> raises. A
  default is kept as what \<^verbatim>\<open>ast.unparse\<close> gives for it: its text, or the exception that
  \<^verbatim>\<open>ast.unparse\<close> raises (a \<^verbatim>\<open>RecursionError\<close> on a deeply nested expression, an
  \<^verbatim>\<open>AttributeError\<close> where the function does not exist).
\<close>

datatype py_error =
  OSError | UnicodeDecodeError | SyntaxError | ValueError | RecursionError | MemoryError | AttributeError

datatype py_kind = KClassDef | KOther

record ast_arg =
  arg :: string
  annotation :: "string option"

datatype ast =
    Module "ast list"
  | FunctionDef string "ast_arg list" "(py_error + string) list" "ast list" "string option" int "py_kind option"
  | ClassDef string "ast list" int "int option"
  | ExprStr string
  | Other "ast list"

fun isinstance_FunctionDef :: "ast \<Rightarrow> bool" where
  "isinstance_FunctionDef (FunctionDef n a d b r l p) = True"
| "isinstance_FunctionDef node = False"

fun isinstance_ClassDef :: "ast \<Rightarrow> bool" where
  "isinstance_ClassDef (ClassDef n b l el) = True"
| "isinstance_ClassDef node = False"

fun iter_child_nodes :: "ast \<Rightarrow> ast list" where
  "iter_child_nodes (Module b) = b"
| "iter_child_nodes (FunctionDef n a d b r l p) = b"
| "iter_child_nodes (ClassDef n b l el) = b"
| "iter_child_nodes (ExprStr s) = []"
| "iter_child_nodes (Other cs) = cs"

lemma size_iter_child_nodes: "size_list size (iter_child_nodes n) \<le> size n"
  by (cases n) simp_all

text \<open>
  \<^verbatim>\<open>ast.walk\<close>: take the first node of the queue, put its children at the end of the
  queue, yield the node.
\<close>

function walk_queue :: "ast list \<Rightarrow> ast list" where
  "walk_queue [] = []"
| "walk_queue (n # todo) = n # walk_queue (todo @ iter_child_nodes n)"
  by pat_completeness auto
termination
proof (relation "measure (size_list size)", goal_cases)
  case 1
  then show ?case by simp
next
  case (2 n todo)
  then show ?case using size_iter_child_nodes[of n] by simp
qed

definition ast_walk :: "ast \<Rightarrow> ast list" where
  "ast_walk node = walk_queue [node]"

text \<open>The string of a body whose first statement is a string constant.\<close>

fun body_docstring :: "ast list \<Rightarrow> string option" where
  "body_docstring (ExprStr s # rest) = Some s"
| "body_docstring b = None"

text \<open>\<^verbatim>\<open>ast.get_docstring(node)\<close>; \<open>cleandoc\<close> stands for \<^verbatim>\<open>inspect.cleandoc\<close>.\<close>

definition get_docstring :: "(string \<Rightarrow> string) \<Rightarrow> ast list \<Rightarrow> string option" where
  "get_docstring cleandoc b = map_option cleandoc (body_docstring b)"

subsection \<open>The parser (\<^verbatim>\<open>parsers/base.py\<close>)\<close>

definition line_indent :: "string \<Rightarrow> nat" where
  "line_indent line = length line - length (lstrip line)"

text \<open>The least indentation of the lines that are not blank; \<open>None\<close> is \<^verbatim>\<open>float('inf')\<close>.\<close>

definition min_indent :: "string list \<Rightarrow> nat option" where
  "min_indent lines =
     foldl (\<lambda>m line. if strip line \<noteq> []
                       then (case m of None \<Rightarrow> Some (line_indent line)
                                     | Some k \<Rightarrow> Some (min k (line_indent line)))
                       else m) None lines"

definition clean_docstring :: "string \<Rightarrow> string" where
  "clean_docstring doc =
     (if doc = [] then []
      else let d = strip doc; lines = str_split NL d in
        if length lines > 1 then
          (case min_indent (tl lines) of
             None \<Rightarrow> d
           | Some k \<Rightarrow> str_join [NL]
               (hd lines # map (\<lambda>line. if length line > k then drop k line else line) (tl lines)))
        else d)"

text \<open>The section headers, each \<^verbatim>\<open>^(...):\s*$\<close> under \<^verbatim>\<open>re.IGNORECASE\<close>.\<close>

definition header_re :: "regex \<Rightarrow> regex" where
  "header_re names = seqs [Bos, Grp 1 names, liti CHR '':'', Star ws, Eos]"

definition section_patterns :: "(string \<times> regex) list" where
  "section_patterns =
     [(''args'', header_re (alts [stri ''Args'', stri ''Arguments'', stri ''Parameters''])),
      (''returns'', header_re (alts [Seq (stri ''Return'') (opt (liti CHR ''s'')), stri ''Return''])),
      (''raises'', header_re (alts [Seq (stri ''Raise'') (opt (liti CHR ''s'')),
                                    Seq (stri ''Exception'') (opt (liti CHR ''s''))])),
      (''yields'', header_re (Seq (stri ''Yield'') (opt (liti CHR ''s'')))),
      (''examples'', header_re (Seq (stri ''Example'') (opt (liti CHR ''s'')))),
      (''note'', header_re (alts [stri ''Note'', stri ''Notes''])),
      (''warning'', header_re (alts [stri ''Warning'', stri ''Warnings'']))]"

definition section_found :: "string \<Rightarrow> string option" where
  "section_found line_stripped =
     map_option fst (find (\<lambda>(section_name, pattern). re_match pattern line_stripped \<noteq> None)
                          section_patterns)"

definition save_section :: "(string \<times> string) list \<Rightarrow> string \<Rightarrow> string list \<Rightarrow> (string \<times> string) list" where
  "save_section sections current_section current_content =
     (if current_content \<noteq> []
      then AList.update current_section (strip (str_join [NL] current_content)) sections
      else sections)"

definition sections_step ::
  "(string \<times> string) list \<times> string \<times> string list \<Rightarrow> string \<Rightarrow> (string \<times> string) list \<times> string \<times> string list" where
  "sections_step st line =
     (case st of (sections, current_section, current_content) \<Rightarrow>
        (case section_found (strip line) of
           Some found \<Rightarrow> (save_section sections current_section current_content, found, [])
         | None \<Rightarrow> (sections, current_section, current_content @ [line])))"

definition parse_docstring_sections :: "string \<Rightarrow> (string \<times> string) list" where
  "parse_docstring_sections doc =
     (if doc = [] then []
      else (case foldl sections_step ([], ''summary'', []) (str_split NL doc) of
              (sections, current_section, current_content) \<Rightarrow>
                save_section sections current_section current_content))"

text \<open>\<^verbatim>\<open>_get_visibility\<close>\<close>

definition get_visibility :: "string \<Rightarrow> string" where
  "get_visibility n =
     (if startswith n ''__'' \<and> endswith n ''__'' then ''special''
      else if startswith n ''__'' then ''private''
      else if startswith n ''_'' then ''protected''
      else ''public'')"

text \<open>
  \<^verbatim>\<open>_is_method\<close>: the node has an attribute \<^verbatim>\<open>parent\<close> and it is a \<^verbatim>\<open>ClassDef\<close>.
\<close>

fun is_method :: "ast \<Rightarrow> bool" where
  "is_method (FunctionDef n a d b r l p) = (p = Some KClassDef)"
| "is_method node = False"

text \<open>
  The defaults belong to the last parameters: the \<open>i\<close>-th default goes to the parameter
  at \<open>len(parameters) - len(defaults) + i\<close> when that index is in range, and only then
  is it unparsed. The loop ends with the first exception.
\<close>

definition default_step ::
  "nat \<Rightarrow> py_error + Parameter list \<Rightarrow> nat \<times> (py_error + string) \<Rightarrow> py_error + Parameter list" where
  "default_step n_defaults acc d =
     (case acc of
        Inl err \<Rightarrow> Inl err
      | Inr ps \<Rightarrow>
          (case d of (i, unparsed) \<Rightarrow>
             let param_index = int (length ps) - int n_defaults + int i in
             if 0 \<le> param_index \<and> param_index < int (length ps) then
               (case unparsed of
                  Inl err \<Rightarrow> Inl err
                | Inr dflt \<Rightarrow>
                    Inr (ps[nat param_index :=
                           (ps ! nat param_index)\<lparr>default_value := Some dflt, is_required := False\<rparr>]))
             else Inr ps))"

definition apply_defaults :: "(py_error + string) list \<Rightarrow> Parameter list \<Rightarrow> py_error + Parameter list" where
  "apply_defaults defaults ps =
     foldl (default_step (length defaults)) (Inr ps) (enumerate 0 defaults)"

definition new_parameter :: "ast_arg \<Rightarrow> Parameter" where
  "new_parameter a = \<lparr>param_name = arg a, type_hint = annotation a, default_value = None,
                       param_description = None, is_required = True\<rparr>"

text \<open>
  \<^verbatim>\<open>_extract_parameters\<close>. It raises what unparsing a default raises; a node that is no
  function definition has no \<^verbatim>\<open>args\<close>.
\<close>

fun extract_parameters :: "ast \<Rightarrow> py_error + Parameter list" where
  "extract_parameters (FunctionDef n a d b r l p) =
     (let args = (if a \<noteq> [] then
                    (if arg (hd a) = ''self'' \<and> is_method (FunctionDef n a d b r l p)
                     then tl a else a)
                  else a)
      in apply_defaults d (map new_parameter args))"
| "extract_parameters node = Inl AttributeError"

text \<open>
  \<^verbatim>\<open>_parse_function\<close>. Its body is in a \<^verbatim>\<open>try\<close>: when \<^verbatim>\<open>_extract_parameters\<close> raises, the
  handler logs the exception and returns \<^verbatim>\<open>None\<close>.
\<close>

fun parse_function :: "(string \<Rightarrow> string) \<Rightarrow> ast \<Rightarrow> Path \<Rightarrow> CodeElement option" where
  "parse_function cleandoc (FunctionDef n a d b r l p) fp =
     (let node = FunctionDef n a d b r l p;
          etype = (if is_method node then METHOD else FUNCTION)
      in case extract_parameters node of
           Inl err \<Rightarrow> None
         | Inr ps \<Rightarrow>
             (let ret = (case r of None \<Rightarrow> None
                         | Some t \<Rightarrow> Some \<lparr>return_type_hint = Some t, return_description = None\<rparr>);
                  el = set_return_info ret (set_parameters ps (new_element n etype fp l))
              in if truthy (get_docstring cleandoc b) then
                   (let doc = the (get_docstring cleandoc b);
                        lines = str_split NL (strip doc)
                    in Some (set_description
                               (Some (if length lines > 1 then strip (str_join [NL] (tl lines)) else []))
                               (set_summary (Some (case lines of [] \<Rightarrow> [] | x # xs \<Rightarrow> x))
                                  (set_docstring (Some doc) el))))
                 else Some el))"
| "parse_function cleandoc node fp = None"

text \<open>\<^verbatim>\<open>extract_docstring\<close>\<close>

fun extract_docstring :: "ast \<Rightarrow> string option" where
  "extract_docstring (Module b) = map_option clean_docstring (body_docstring b)"
| "extract_docstring (FunctionDef n a d b r l p) = map_option clean_docstring (body_docstring b)"
| "extract_docstring (ClassDef n b l el) = map_option clean_docstring (body_docstring b)"
| "extract_docstring node = None"

text \<open>
  \<^verbatim>\<open>_parse_parameter_descriptions\<close>. The dictionary from names to parameters holds, for
  each name, the last parameter of that name; a description goes to that parameter.
\<close>

fun assign_description :: "string \<Rightarrow> string \<Rightarrow> Parameter list \<Rightarrow> Parameter list" where
  "assign_description n d [] = []"
| "assign_description n d (p # ps) =
     (if param_name p = n \<and> n \<notin> set (map param_name ps)
      then p\<lparr>param_description := Some d\<rparr> # ps
      else p # assign_description n d ps)"

definition param_line_re :: regex where
  "param_line_re = seqs [Bos, Grp 1 (plus wd), lit CHR '':'', Star ws, Grp 2 (Star dot)]"

definition flush_param :: "string option \<Rightarrow> string list \<Rightarrow> Parameter list \<Rightarrow> Parameter list" where
  "flush_param current_param current_desc ps =
     (case current_param of
        None \<Rightarrow> ps
      | Some n \<Rightarrow> if n \<noteq> [] \<and> current_desc \<noteq> []
                  then assign_description n (strip (str_join '' '' current_desc)) ps
                  else ps)"

definition param_step ::
  "string option \<times> string list \<times> Parameter list \<Rightarrow> string \<Rightarrow> string option \<times> string list \<times> Parameter list" where
  "param_step st raw =
     (case st of (current_param, current_desc, ps) \<Rightarrow>
        let line = strip raw in
        if line = [] then st
        else (case re_match param_line_re line of
                Some m \<Rightarrow> (Some (group_str line m 1),
                           (if group_str line m 2 \<noteq> [] then [group_str line m 2] else []),
                           flush_param current_param current_desc ps)
              | None \<Rightarrow> (if truthy current_param
                         then (current_param, current_desc @ [line], ps)
                         else st)))"

definition parse_parameter_descriptions :: "string \<Rightarrow> Parameter list \<Rightarrow> Parameter list" where
  "parse_parameter_descriptions args_section ps =
     (case foldl param_step (None, [], ps) (str_split NL args_section) of
        (current_param, current_desc, ps') \<Rightarrow> flush_param current_param current_desc ps')"

text \<open>\<^verbatim>\<open>_parse_exceptions\<close>, with the line pattern \<^verbatim>\<open>^(\w+(?:\.\w+)*):\s*(.*)\<close>.\<close>

definition dotted_name :: regex where
  "dotted_name = Seq (plus wd) (Star (Seq (lit CHR ''.'') (plus wd)))"

definition exception_line_re :: regex where
  "exception_line_re = seqs [Bos, Grp 1 dotted_name, lit CHR '':'', Star ws, Grp 2 (Star dot)]"

definition flush_exception :: "string option \<Rightarrow> string list \<Rightarrow> ExceptionInfo list \<Rightarrow> ExceptionInfo list" where
  "flush_exception current_exception current_desc excs =
     (case current_exception of
        None \<Rightarrow> excs
      | Some n \<Rightarrow> if n \<noteq> [] \<and> current_desc \<noteq> []
                  then excs @ [\<lparr>exception_type = n,
                                 exception_description = Some (strip (str_join '' '' current_desc)),
                                 conditions = None\<rparr>]
                  else excs)"

definition exception_step ::
  "string option \<times> string list \<times> ExceptionInfo list \<Rightarrow> string \<Rightarrow> string option \<times> string list \<times> ExceptionInfo list" where
  "exception_step st raw =
     (case st of (current_exception, current_desc, excs) \<Rightarrow>
        let line = strip raw in
        if line = [] then st
        else (case re_match exception_line_re line of
                Some m \<Rightarrow> (Some (group_str line m 1),
                           (if group_str line m 2 \<noteq> [] then [group_str line m 2] else []),
                           flush_exception current_exception current_desc excs)
              | None \<Rightarrow> (if truthy current_exception
                         then (current_exception, current_desc @ [line], excs)
                         else st)))"

definition parse_exceptions :: "string \<Rightarrow> ExceptionInfo list" where
  "parse_exceptions raises_section =
     (case foldl exception_step (None, [], []) (str_split NL raises_section) of
        (current_exception, current_desc, excs) \<Rightarrow>
          flush_exception current_exception current_desc excs)"

text \<open>\<^verbatim>\<open>_parse_docstring_info\<close>, one definition for each of its four steps.\<close>

definition info_summary :: "(string \<times> string) list \<Rightarrow> CodeElement \<Rightarrow> CodeElement" where
  "info_summary sections e =
     (case map_of sections ''summary'' of
        None \<Rightarrow> e
      | Some text \<Rightarrow>
          let lines = str_split NL text;
              e1 = set_summary (Some (strip (hd lines))) e
          in if length lines > 1
             then set_description (Some (strip (str_join [NL] (tl lines)))) e1
             else e1)"

definition info_args :: "(string \<times> string) list \<Rightarrow> CodeElement \<Rightarrow> CodeElement" where
  "info_args sections e =
     (case map_of sections ''args'' of
        None \<Rightarrow> e
      | Some text \<Rightarrow>
          if parameters e \<noteq> []
          then set_parameters (parse_parameter_descriptions text (parameters e)) e
          else e)"

definition info_returns :: "(string \<times> string) list \<Rightarrow> CodeElement \<Rightarrow> CodeElement" where
  "info_returns sections e =
     (case map_of sections ''returns'' of
        None \<Rightarrow> e
      | Some text \<Rightarrow>
          (case return_info e of
             None \<Rightarrow> e
           | Some r \<Rightarrow> set_return_info (Some (r\<lparr>return_description := Some (strip text)\<rparr>)) e))"

definition info_raises :: "(string \<times> string) list \<Rightarrow> CodeElement \<Rightarrow> CodeElement" where
  "info_raises sections e =
     (case map_of sections ''raises'' of
        None \<Rightarrow> e
      | Some text \<Rightarrow> set_exceptions (parse_exceptions text) e)"

definition parse_docstring_info :: "CodeElement \<Rightarrow> CodeElement" where
  "parse_docstring_info e =
     (if \<not> truthy (docstring e) then e
      else let sections = parse_docstring_sections (the (docstring e)) in
        info_raises sections (info_returns sections (info_args sections (info_summary sections e))))"

text \<open>The methods of a class: its body's function definitions, each parsed again.\<close>

definition parse_methods :: "(string \<Rightarrow> string) \<Rightarrow> ast list \<Rightarrow> Path \<Rightarrow> CodeElement list" where
  "parse_methods cleandoc b fp =
     List.map_filter (\<lambda>item. if isinstance_FunctionDef item then parse_function cleandoc item fp
                             else None) b"

text \<open>\<^verbatim>\<open>_parse_class\<close>\<close>

fun parse_class :: "(string \<Rightarrow> string) \<Rightarrow> ast \<Rightarrow> Path \<Rightarrow> CodeElement option" where
  "parse_class cleandoc (ClassDef n b l el) fp =
     (let e0 = set_visibility (get_visibility n)
                 (set_docstring (extract_docstring (ClassDef n b l el))
                    (set_end_line_number el (new_element n CLASS fp l)));
          e1 = set_methods (parse_methods cleandoc b fp) e0
      in Some (if truthy (docstring e1) then parse_docstring_info e1 else e1))"
| "parse_class cleandoc node fp = None"

text \<open>
  \<^verbatim>\<open>parse_file\<close>. What \<^verbatim>\<open>open\<close>, \<^verbatim>\<open>read\<close> and \<^verbatim>\<open>ast.parse\<close> give for the file is the
  argument \<open>outcome\<close>: the tree, or the exception that one of them raised. The loop over
  \<^verbatim>\<open>ast.walk(tree)\<close> keeps the flat list of elements and the module's lists of functions
  and classes. The module element is put in front of the flat list at the end, so the
  element appended when the flat list has \<open>k\<close> entries is at position \<open>k + 1\<close> of the
  list returned, and that position is what the module's lists keep.
\<close>

definition visit_node ::
  "(string \<Rightarrow> string) \<Rightarrow> Path \<Rightarrow> CodeElement list \<times> nat list \<times> nat list \<Rightarrow> ast
     \<Rightarrow> CodeElement list \<times> nat list \<times> nat list" where
  "visit_node cleandoc fp st node =
     (case st of (els, fs, cs) \<Rightarrow>
        if isinstance_FunctionDef node then
          (case parse_function cleandoc node fp of
             Some func_element \<Rightarrow> (els @ [func_element], fs @ [length els + 1], cs)
           | None \<Rightarrow> st)
        else if isinstance_ClassDef node then
          (case parse_class cleandoc node fp of
             Some class_element \<Rightarrow> (els @ [class_element], fs, cs @ [length els + 1])
           | None \<Rightarrow> st)
        else st)"

definition parse_file_body ::
  "(string \<Rightarrow> string) \<Rightarrow> Path \<Rightarrow> py_error + ast \<Rightarrow> py_error + CodeElement list" where
  "parse_file_body cleandoc fp outcome =
     (case outcome of
        Inl err \<Rightarrow> Inl err
      | Inr tree \<Rightarrow>
          (case foldl (visit_node cleandoc fp) ([], [], []) (ast_walk tree) of
             (els, fs, cs) \<Rightarrow>
               let module_element =
                     set_module_classes cs (set_module_functions fs
                       (set_docstring (extract_docstring tree) (new_element (stem fp) MODULE fp 1)))
               in Inr (module_element # els)))"

text \<open>The \<^verbatim>\<open>try\<close> around the body: any exception is logged and the result is \<^verbatim>\<open>[]\<close>.\<close>

definition parse_file ::
  "(string \<Rightarrow> string) \<Rightarrow> Path \<Rightarrow> py_error + ast \<Rightarrow> py_error + CodeElement list" where
  "parse_file cleandoc fp outcome =
     (case parse_file_body cleandoc fp outcome of
        Inl err \<Rightarrow> Inr []
      | Inr els \<Rightarrow> Inr els)"

subsection \<open>The configuration (\<^verbatim>\<open>config.py\<close>)\<close>

text \<open>Of a language's configuration the engine reads the extensions and \<^verbatim>\<open>doc_format.style\<close>.\<close>

record LanguageConfig =
  extensions :: "string list"
  doc_style :: string

record AnalysisConfig =
  check_presence :: bool
  check_format :: bool
  check_completeness :: bool
  evaluate_clarity :: bool
  evaluate_consistency :: bool
  check_sync :: bool

record ServerConfig =
  languages :: "(string \<times> LanguageConfig) list"
  analysis :: AnalysisConfig

text \<open>\<^verbatim>\<open>get_default_config\<close>: five languages, every analysis switched on.\<close>

definition get_default_config :: ServerConfig where
  "get_default_config =
     \<lparr>languages =
        [(''python'', \<lparr>extensions = [''.py''], doc_style = ''google''\<rparr>),
         (''javascript'', \<lparr>extensions = [''.js'', ''.ts'', ''.jsx'', ''.tsx''], doc_style = ''jsdoc''\<rparr>),
         (''java'', \<lparr>extensions = [''.java''], doc_style = ''javadoc''\<rparr>),
         (''cpp'', \<lparr>extensions = [''.cpp'', ''.cc'', ''.cxx'', ''.h'', ''.hpp''], doc_style = ''doxygen''\<rparr>),
         (''go'', \<lparr>extensions = [''.go''], doc_style = ''godoc''\<rparr>)],
      analysis = \<lparr>check_presence = True, check_format = True, check_completeness = True,
                  evaluate_clarity = True, evaluate_consistency = True, check_sync = True\<rparr>\<rparr>"

text \<open>The default configuration with the clarity heuristics switched off.\<close>

definition clarity_off_config :: ServerConfig where
  "clarity_off_config =
     get_default_config\<lparr>analysis := (analysis get_default_config)\<lparr>evaluate_clarity := False\<rparr>\<rparr>"

subsection \<open>The checker (\<^verbatim>\<open>analyzers/checker.py\<close>)\<close>

definition quoted :: "string \<Rightarrow> string" where
  "quoted s = [CHR 0x27] @ s @ [CHR 0x27]"

text \<open>An issue of an element; its line is the element's line.\<close>

definition new_issue :: "CodeElement \<Rightarrow> string \<Rightarrow> string \<Rightarrow> string \<Rightarrow> string \<Rightarrow> DocumentationIssue" where
  "new_issue e itype sev msg sugg =
     \<lparr>element = e, issue_type = itype, severity = sev, message = msg,
      suggestion = Some sugg, issue_line_number = Some (line_number e)\<rparr>"

text \<open>\<^verbatim>\<open>_should_have_documentation\<close>\<close>

definition special_methods_to_document :: "string list" where
  "special_methods_to_document =
     [''__init__'', ''__str__'', ''__repr__'', ''__call__'',
      ''__enter__'', ''__exit__'', ''__iter__'', ''__next__'']"

definition should_have_documentation :: "CodeElement \<Rightarrow> bool" where
  "should_have_documentation e =
     (if visibility e = ''public'' then True
      else if visibility e = ''protected'' then True
      else if visibility e = ''private'' then False
      else if visibility e = ''special'' then name e \<in> set special_methods_to_document
      else True)"

text \<open>\<^verbatim>\<open>_check_presence\<close>\<close>

definition check_presence_issues :: "AnalysisConfig \<Rightarrow> CodeElement \<Rightarrow> DocumentationIssue list" where
  "check_presence_issues cfg e =
     (if \<not> check_presence cfg then []
      else if should_have_documentation e then
        (if \<not> truthy (docstring e) \<or> strip (the (docstring e)) = [] then
           [new_issue e ''missing_documentation''
              (if visibility e = ''public'' then ''high'' else ''medium'')
              (element_type_title (element_type e) @ '' '' @ quoted (name e) @ '' is missing documentation'')
              (''Add a docstring to describe the purpose and usage of '' @ name e)]
         else [])
      else [])"

definition is_callable :: "CodeElement \<Rightarrow> bool" where
  "is_callable e = (element_type e = FUNCTION \<or> element_type e = METHOD)"

text \<open>The style checks. A parameter's name stands in a pattern as itself.\<close>

definition google_args_re :: regex where
  "google_args_re = seqs [lit NL, Star ws, str ''Args:'']"

definition google_returns_re :: regex where
  "google_returns_re = seqs [lit NL, Star ws, str ''Returns:'']"

definition check_google_format :: "CodeElement \<Rightarrow> DocumentationIssue list" where
  "check_google_format e =
     (if is_callable e then
        (if parameters e \<noteq> [] \<and> \<not> re_found google_args_re (the (docstring e)) then
           [new_issue e ''format_violation'' ''low''
              (''Google-style docstring should have '' @ quoted ''Args:'' @ '' section for parameters'')
              (''Add '' @ quoted ''Args:'' @ '' section to document parameters'')]
         else []) @
        (if return_info e \<noteq> None \<and> \<not> re_found google_returns_re (the (docstring e)) then
           [new_issue e ''format_violation'' ''low''
              (''Google-style docstring should have '' @ quoted ''Returns:'' @ '' section'')
              (''Add '' @ quoted ''Returns:'' @ '' section to document return value'')]
         else [])
      else [])"

definition numpy_parameters_re :: regex where
  "numpy_parameters_re =
     seqs [lit NL, Star ws, str ''Parameters'', Star ws, lit NL, Star ws, plus (lit CHR ''-'')]"

definition check_numpy_format :: "CodeElement \<Rightarrow> DocumentationIssue list" where
  "check_numpy_format e =
     (if is_callable e then
        (if parameters e \<noteq> [] \<and> \<not> re_found numpy_parameters_re (the (docstring e)) then
           [new_issue e ''format_violation'' ''low''
              (''NumPy-style docstring should have '' @ quoted ''Parameters'' @ '' section with underline'')
              (''Add '' @ quoted ''Parameters'' @ '' section with dashes underline'')]
         else [])
      else [])"

definition check_sphinx_format :: "CodeElement \<Rightarrow> DocumentationIssue list" where
  "check_sphinx_format e =
     (if is_callable e then
        concat (map (\<lambda>p.
          if \<not> re_found (seqs [str '':param '', str (param_name p), lit CHR '':'']) (the (docstring e)) then
            [new_issue e ''format_violation'' ''low''
               (''Sphinx-style docstring missing '' @ quoted ('':param '' @ param_name p @ '':'') @ '' directive'')
               (''Add '' @ quoted ('':param '' @ param_name p @ '': description'') @ '' directive'')]
          else []) (parameters e))
      else [])"

definition check_javadoc_format :: "CodeElement \<Rightarrow> DocumentationIssue list" where
  "check_javadoc_format e =
     (if is_callable e then
        concat (map (\<lambda>p.
          if \<not> re_found (seqs [str ''@param '', str (param_name p)]) (the (docstring e)) then
            [new_issue e ''format_violation'' ''low''
               (''Javadoc-style comment missing '' @ quoted (''@param '' @ param_name p) @ '' tag'')
               (''Add '' @ quoted (''@param '' @ param_name p @ '' description'') @ '' tag'')]
          else []) (parameters e))
      else [])"

definition jsdoc_param_re :: "string \<Rightarrow> regex" where
  "jsdoc_param_re n =
     seqs [str ''@param {'', Star (Chr (\<lambda>x. x \<noteq> CHR ''}'')), str ''} '', str n]"

definition check_jsdoc_format :: "CodeElement \<Rightarrow> DocumentationIssue list" where
  "check_jsdoc_format e =
     (if is_callable e then
        concat (map (\<lambda>p.
          if \<not> re_found (jsdoc_param_re (param_name p)) (the (docstring e)) then
            [new_issue e ''format_violation'' ''low''
               (''JSDoc-style comment missing '' @ quoted (''@param {type} '' @ param_name p) @ '' tag'')
               (''Add '' @ quoted (''@param {type} '' @ param_name p @ '' description'') @ '' tag'')]
          else []) (parameters e))
      else [])"

text \<open>\<^verbatim>\<open>_check_format\<close>\<close>

definition check_format_issues :: "ServerConfig \<Rightarrow> CodeElement \<Rightarrow> string \<Rightarrow> DocumentationIssue list" where
  "check_format_issues cfg e lang =
     (if \<not> truthy (docstring e) then []
      else (case map_of (languages cfg) lang of
              None \<Rightarrow> []
            | Some lang_config \<Rightarrow>
                if doc_style lang_config = ''google'' then check_google_format e
                else if doc_style lang_config = ''numpy'' then check_numpy_format e
                else if doc_style lang_config = ''sphinx'' then check_sphinx_format e
                else if doc_style lang_config = ''javadoc'' then check_javadoc_format e
                else if doc_style lang_config = ''jsdoc'' then check_jsdoc_format e
                else []))"

text \<open>\<^verbatim>\<open>_has_summary_in_docstring\<close>\<close>

definition has_summary_in_docstring :: "string \<Rightarrow> bool" where
  "has_summary_in_docstring doc =
     (if doc = [] then False
      else let first_line = strip (hd (str_split NL doc)) in
        length first_line > 0 \<and>
        \<not> (startswith first_line ''Args:'' \<or> startswith first_line ''Parameters:'' \<or>
           startswith first_line ''Returns:''))"

text \<open>
  The lookahead \<^verbatim>\<open>(?=\n\s*\w+:|$)\<close> that ends a section and an entry: the next line that
  starts with a name and a colon, or the end of the text.
\<close>

definition next_field :: regex where
  "next_field = Alt (seqs [lit NL, Star ws, plus wd, lit CHR '':'']) Eos"

text \<open>\<^verbatim>\<open>Args:\s*\n(.*?)(?=\n\s*\w+:|$)\<close> under \<^verbatim>\<open>re.DOTALL\<close>\<close>

definition args_section_re :: regex where
  "args_section_re =
     seqs [str ''Args:'', Star ws, lit NL, Grp 1 (LazyStar dot_all), Look next_field]"

text \<open>\<^verbatim>\<open>(\w+):\s*(.*?)(?=\n\s*\w+:|$)\<close> under \<^verbatim>\<open>re.DOTALL\<close>\<close>

definition args_entry_re :: regex where
  "args_entry_re =
     seqs [Grp 1 (plus wd), lit CHR '':'', Star ws, Grp 2 (LazyStar dot_all), Look next_field]"

text \<open>\<^verbatim>\<open>:param (\w+):\s*(.*?)(?=\n|$)\<close>\<close>

definition sphinx_param_re :: regex where
  "sphinx_param_re =
     seqs [str '':param '', Grp 1 (plus wd), lit CHR '':'', Star ws, Grp 2 (LazyStar dot),
           Look (Alt (lit NL) Eos)]"

text \<open>
  \<^verbatim>\<open>_extract_documented_parameters\<close> of the checker: a dictionary from the documented
  names to their descriptions.
\<close>

definition record_matches :: "string \<Rightarrow> rmatch_result list \<Rightarrow> (string \<times> string) list \<Rightarrow> (string \<times> string) list" where
  "record_matches text ms documented =
     foldl (\<lambda>acc m. AList.update (group_str text m 1) (strip (group_str text m 2)) acc) documented ms"

definition extract_documented_parameters :: "string \<Rightarrow> (string \<times> string) list" where
  "extract_documented_parameters doc =
     (if doc = [] then []
      else let documented =
                 (case re_search args_section_re doc of
                    None \<Rightarrow> []
                  | Some args_match \<Rightarrow>
                      let args_section = group_str doc args_match 1 in
                      record_matches args_section (re_finditer args_entry_re args_section) [])
           in record_matches doc (re_finditer sphinx_param_re doc) documented)"

text \<open>\<^verbatim>\<open>_check_parameters_documentation\<close>\<close>

definition check_parameters_documentation :: "CodeElement \<Rightarrow> DocumentationIssue list" where
  "check_parameters_documentation e =
     (let documented_params = extract_documented_parameters (case docstring e of None \<Rightarrow> [] | Some d \<Rightarrow> d) in
      concat (map (\<lambda>p.
        if param_name p = ''self'' \<or> param_name p = ''cls'' then []
        else (case map_of documented_params (param_name p) of
                None \<Rightarrow>
                  [new_issue e ''missing_parameter_doc'' ''medium''
                     (''Parameter '' @ quoted (param_name p) @ '' is not documented'')
                     (''Add documentation for parameter '' @ quoted (param_name p))]
              | Some desc \<Rightarrow>
                  if strip desc = [] then
                    [new_issue e ''empty_parameter_doc'' ''low''
                       (''Parameter '' @ quoted (param_name p) @ '' has empty documentation'')
                       (''Add description for parameter '' @ quoted (param_name p))]
                  else [])) (parameters e)))"

text \<open>\<^verbatim>\<open>_has_return_documentation\<close>: six patterns under \<^verbatim>\<open>re.IGNORECASE\<close>.\<close>

definition return_patterns :: "regex list" where
  "return_patterns =
     [seqs [lit NL, Star ws, stri ''Return'', opt (liti CHR ''s''), lit CHR '':'', Star ws, plus wd],
      seqs [lit NL, Star ws, stri ''Return:'', Star ws, plus wd],
      seqs [stri '':return'', opt (liti CHR ''s''), lit CHR '':'', Star ws, plus wd],
      seqs [stri '':return:'', Star ws, plus wd],
      seqs [stri ''@return'', opt (liti CHR ''s''), plus ws, plus wd],
      seqs [stri ''@return'', plus ws, plus wd]]"

definition has_return_documentation :: "string \<Rightarrow> bool" where
  "has_return_documentation doc =
     (if doc = [] then False else list_ex (\<lambda>pattern. re_found pattern doc) return_patterns)"

text \<open>\<^verbatim>\<open>_check_return_documentation\<close>\<close>

definition check_return_documentation :: "CodeElement \<Rightarrow> DocumentationIssue list" where
  "check_return_documentation e =
     (if return_info e = None \<or> startswith (name e) ''__'' \<or>
         name e \<in> set [''main'', ''setup'', ''teardown''] then []
      else if \<not> has_return_documentation (case docstring e of None \<Rightarrow> [] | Some d \<Rightarrow> d) then
        [new_issue e ''missing_return_doc'' ''medium''
           ''Return value is not documented'' ''Add documentation for the return value'']
      else [])"

text \<open>\<^verbatim>\<open>_extract_documented_exceptions\<close>\<close>

definition raises_section_re :: regex where
  "raises_section_re =
     seqs [str ''Raises:'', Star ws, lit NL, Grp 1 (LazyStar dot_all), Look next_field]"

definition raises_entry_re :: regex where
  "raises_entry_re = seqs [Grp 1 dotted_name, lit CHR '':'']"

definition sphinx_raises_re :: regex where
  "sphinx_raises_re = seqs [str '':raises '', Grp 1 dotted_name, lit CHR '':'']"

definition extract_documented_exceptions :: "string \<Rightarrow> string list" where
  "extract_documented_exceptions doc =
     (if doc = [] then []
      else (case re_search raises_section_re doc of
              None \<Rightarrow> []
            | Some raises_match \<Rightarrow>
                let raises_section = group_str doc raises_match 1 in
                map (\<lambda>m. group_str raises_section m 1) (re_finditer raises_entry_re raises_section))
           @ map (\<lambda>m. group_str doc m 1) (re_finditer sphinx_raises_re doc))"

text \<open>\<^verbatim>\<open>_check_exceptions_documentation\<close>\<close>

definition check_exceptions_documentation :: "CodeElement \<Rightarrow> DocumentationIssue list" where
  "check_exceptions_documentation e =
     (if exceptions e \<noteq> [] then
        (let documented_exceptions =
               extract_documented_exceptions (case docstring e of None \<Rightarrow> [] | Some d \<Rightarrow> d) in
         concat (map (\<lambda>x.
           if exception_type x \<notin> set documented_exceptions then
             [new_issue e ''missing_exception_doc'' ''low''
                (''Exception '' @ quoted (exception_type x) @ '' is not documented'')
                (''Add documentation for exception '' @ quoted (exception_type x))]
           else []) (exceptions e)))
      else [])"

text \<open>\<^verbatim>\<open>_check_completeness\<close>\<close>

definition check_completeness_issues :: "CodeElement \<Rightarrow> DocumentationIssue list" where
  "check_completeness_issues e =
     (if \<not> truthy (docstring e) then []
      else
        (if \<not> truthy (summary e) \<and> \<not> has_summary_in_docstring (the (docstring e)) then
           [new_issue e ''missing_summary'' ''medium''
              (element_type_title (element_type e) @ '' '' @ quoted (name e) @ '' lacks a summary description'')
              ''Add a brief summary describing what this element does'']
         else []) @
        (if is_callable e then
           check_parameters_documentation e @ check_return_documentation e @
           check_exceptions_documentation e
         else []))"

text \<open>\<^verbatim>\<open>_determine_status\<close>\<close>

definition count_severity :: "string \<Rightarrow> DocumentationIssue list \<Rightarrow> nat" where
  "count_severity sev found = length (filter (\<lambda>issue. severity issue = sev) found)"

definition determine_status :: "CodeElement \<Rightarrow> DocumentationIssue list \<Rightarrow> DocumentationStatus" where
  "determine_status e found =
     (if \<not> truthy (docstring e) then MISSING
      else let critical_issues = count_severity ''critical'' found;
               high_issues = count_severity ''high'' found;
               medium_issues = count_severity ''medium'' found;
               low_issues = count_severity ''low'' found
           in if critical_issues > 0 then INCOMPLETE
              else if high_issues > 0 then INCOMPLETE
              else if medium_issues > 2 then INCOMPLETE
              else if medium_issues > 0 \<or> low_issues > 3 then OUTDATED
              else if low_issues > 0 then GOOD
              else EXCELLENT)"

text \<open>
  \<^verbatim>\<open>_check_element\<close>: the issues of the three stages, then the element with its messages
  and its status. The issues go to the end of the file result's issues.
\<close>

definition element_issues :: "ServerConfig \<Rightarrow> CodeElement \<Rightarrow> string \<Rightarrow> DocumentationIssue list" where
  "element_issues cfg e lang =
     (if check_presence (analysis cfg) then check_presence_issues (analysis cfg) e else []) @
     (if truthy (docstring e) \<and> check_format (analysis cfg) then check_format_issues cfg e lang else []) @
     (if truthy (docstring e) \<and> check_completeness (analysis cfg) then check_completeness_issues e else [])"

definition check_element :: "ServerConfig \<Rightarrow> CodeElement \<Rightarrow> string \<Rightarrow> CodeElement \<times> DocumentationIssue list" where
  "check_element cfg e lang =
     (let found = element_issues cfg e lang in
      (set_status (determine_status e found) (set_issues (map message found) e), found))"

text \<open>\<^verbatim>\<open>_calculate_coverage\<close>: the loop with its two counters, then the three assignments.\<close>

definition coverage_step :: "nat \<times> nat \<Rightarrow> CodeElement \<Rightarrow> nat \<times> nat" where
  "coverage_step counters e =
     (case counters of (n_total, n_documented) \<Rightarrow>
        if should_have_documentation e then
          (n_total + 1, if status e \<noteq> MISSING then n_documented + 1 else n_documented)
        else (n_total, n_documented))"

definition calculate_coverage :: "FileAnalysisResult \<Rightarrow> FileAnalysisResult" where
  "calculate_coverage fr =
     (case foldl coverage_step (0, 0) (elements fr) of
        (n_total, n_documented) \<Rightarrow>
          fr\<lparr>total_elements := n_total, documented_elements := n_documented,
             coverage_score := (if n_total > 0 then real n_documented / real n_total else 1)\<rparr>)"

text \<open>\<^verbatim>\<open>check_file\<close>\<close>

definition check_file_step ::
  "ServerConfig \<Rightarrow> string \<Rightarrow> CodeElement list \<times> DocumentationIssue list \<Rightarrow> CodeElement
     \<Rightarrow> CodeElement list \<times> DocumentationIssue list" where
  "check_file_step cfg lang st e =
     (case st of (done, found) \<Rightarrow>
        (case check_element cfg e lang of (e', new) \<Rightarrow> (done @ [e'], found @ new)))"

definition check_file :: "ServerConfig \<Rightarrow> FileAnalysisResult \<Rightarrow> FileAnalysisResult" where
  "check_file cfg fr =
     (case foldl (check_file_step cfg (language fr)) ([], file_issues fr) (elements fr) of
        (checked, found) \<Rightarrow> calculate_coverage (fr\<lparr>elements := checked, file_issues := found\<rparr>))"


subsection \<open>Python sets of strings\<close>

text \<open>
  A set is the list of its members in the order in which they were first added. Python
  leaves open the order in which a loop visits a set: it is the order of a hash table.
  The model takes that order from a parameter \<open>h\<close>, which ranks the members of each set;
  every order of every set is the order of some \<open>h\<close>.
\<close>

definition set_add :: "string \<Rightarrow> string list \<Rightarrow> string list" where
  "set_add x xs = (if x \<in> set xs then xs else xs @ [x])"

definition set_iter :: "(string list \<Rightarrow> string \<Rightarrow> nat) \<Rightarrow> string list \<Rightarrow> string list" where
  "set_iter h xs = sort_key (h xs) xs"

subsection \<open>The evaluator (\<^verbatim>\<open>analyzers/evaluator.py\<close>)\<close>

text \<open>
  The evaluator keeps two tables for the whole project: for each term in lower case the
  set of the spellings seen, and a counter of summary patterns.
\<close>

record EvaluatorState =
  project_terminology :: "(string \<times> string list) list"
  project_patterns :: "(string \<times> nat) list"

text \<open>
  \<^verbatim>\<open>_extract_documented_parameters\<close> of the evaluator: the set of the documented names, from
  the \<^verbatim>\<open>Args:\<close> section and from the tags \<^verbatim>\<open>:param name:\<close>, \<^verbatim>\<open>@param name\<close> and
  \<^verbatim>\<open>@param {type} name\<close>.
\<close>

definition name_colon_re :: regex where
  "name_colon_re = seqs [Grp 1 (plus wd), lit CHR '':'']"

definition sphinx_name_re :: regex where
  "sphinx_name_re = seqs [str '':param '', Grp 1 (plus wd), lit CHR '':'']"

definition javadoc_name_re :: regex where
  "javadoc_name_re = seqs [str ''@param '', Grp 1 (plus wd)]"

definition jsdoc_name_re :: regex where
  "jsdoc_name_re =
     seqs [str ''@param {'', Star (Chr (\<lambda>x. x \<noteq> CHR ''}'')), str ''} '', Grp 1 (plus wd)]"

definition add_matches :: "string \<Rightarrow> rmatch_result list \<Rightarrow> string list \<Rightarrow> string list" where
  "add_matches text ms documented = foldl (\<lambda>acc m. set_add (group_str text m 1) acc) documented ms"

definition documented_parameter_names :: "string \<Rightarrow> string list" where
  "documented_parameter_names doc =
     (if doc = [] then []
      else let d0 = (case re_search args_section_re doc of
                       None \<Rightarrow> []
                     | Some args_match \<Rightarrow>
                         let args_section = group_str doc args_match 1 in
                         add_matches args_section (re_finditer name_colon_re args_section) []);
               d1 = add_matches doc (re_finditer sphinx_name_re doc) d0;
               d2 = add_matches doc (re_finditer javadoc_name_re doc) d1
           in add_matches doc (re_finditer jsdoc_name_re doc) d2)"

text \<open>\<^verbatim>\<open>_check_parameter_sync\<close>\<close>

definition check_parameter_sync ::
  "(string list \<Rightarrow> string \<Rightarrow> nat) \<Rightarrow> CodeElement \<Rightarrow> DocumentationIssue list" where
  "check_parameter_sync h e =
     (let documented_params = documented_parameter_names (case docstring e of None \<Rightarrow> [] | Some d \<Rightarrow> d);
          actual_params = foldl (\<lambda>acc p. if param_name p = ''self'' \<or> param_name p = ''cls'' then acc
                                           else set_add (param_name p) acc) [] (parameters e)
      in concat (map (\<lambda>doc_param.
           if doc_param \<notin> set actual_params then
             [new_issue e ''sync_extra_param'' ''medium''
                (''Documented parameter '' @ quoted doc_param @ '' not found in function signature'')
                (''Remove documentation for '' @ quoted doc_param @ '' or check function signature'')]
           else []) (set_iter h documented_params))
         @ concat (map (\<lambda>actual_param.
           if actual_param \<notin> set documented_params then
             [new_issue e ''sync_missing_param'' ''medium''
                (''Parameter '' @ quoted actual_param @ '' exists in code but not documented'')
                (''Add documentation for parameter '' @ quoted actual_param)]
           else []) (set_iter h actual_params)))"

text \<open>\<^verbatim>\<open>_check_outdated_information\<close>: one issue, for the first indicator found.\<close>

definition temporal_indicators :: "string list" where
  "temporal_indicators =
     [''currently'', ''now'', ''at the moment'', ''for now'',
      ''temporary'', ''temporarily'', ''will be'', ''todo'', ''fixme'']"

definition check_outdated_information :: "CodeElement \<Rightarrow> DocumentationIssue list" where
  "check_outdated_information e =
     (let doc = str_lower (case docstring e of None \<Rightarrow> [] | Some d \<Rightarrow> d) in
      case find (\<lambda>indicator. str_contains doc indicator) temporal_indicators of
        None \<Rightarrow> []
      | Some indicator \<Rightarrow>
          [new_issue e ''potentially_outdated'' ''low''
             (''Documentation contains temporal language: '' @ quoted indicator)
             ''Review and update temporal references in documentation''])"

text \<open>\<^verbatim>\<open>_check_synchronization\<close>\<close>

definition check_synchronization ::
  "(string list \<Rightarrow> string \<Rightarrow> nat) \<Rightarrow> CodeElement \<Rightarrow> DocumentationIssue list" where
  "check_synchronization h e =
     (if \<not> truthy (docstring e) then []
      else (if is_callable e then check_parameter_sync h e else []) @ check_outdated_information e)"

text \<open>
  \<^verbatim>\<open>_evaluate_element\<close>. The clarity heuristics rest on the readability scores of the
  \<^verbatim>\<open>textstat\<close> library; their issues are the parameter \<open>clarity\<close>.
\<close>

definition evaluate_element ::
  "ServerConfig \<Rightarrow> (string list \<Rightarrow> string \<Rightarrow> nat) \<Rightarrow> (CodeElement \<Rightarrow> DocumentationIssue list)
     \<Rightarrow> CodeElement \<Rightarrow> CodeElement \<times> DocumentationIssue list" where
  "evaluate_element cfg h clarity e =
     (let found = (if evaluate_clarity (analysis cfg) then clarity e else []) @
                  (if check_sync (analysis cfg) then check_synchronization h e else [])
      in (set_issues (issues e @ map message found) e, found))"

text \<open>\<^verbatim>\<open>_analyze_documentation_styles\<close>\<close>

definition style_signatures :: "(string \<times> regex) list" where
  "style_signatures =
     [(''google'', seqs [lit NL, Star ws, str ''Args:'', Star ws, lit NL]),
      (''numpy'', numpy_parameters_re),
      (''sphinx'', seqs [str '':param '', plus wd, lit CHR '':'']),
      (''javadoc'', seqs [str ''@param '', plus wd]),
      (''jsdoc'', seqs [str ''@param {'', Star (Chr (\<lambda>x. x \<noteq> CHR ''}'')), str ''} '', plus wd])]"

definition analyze_documentation_styles :: "CodeElement list \<Rightarrow> string list" where
  "analyze_documentation_styles els =
     foldl (\<lambda>styles e.
              if truthy (docstring e) then
                foldl (\<lambda>acc (style, signature).
                         if re_found signature (the (docstring e)) then set_add style acc else acc)
                      styles style_signatures
              else styles) [] els"

text \<open>\<^verbatim>\<open>_check_file_consistency\<close>: one issue, on the first element that has documentation.\<close>

definition check_file_consistency ::
  "(string list \<Rightarrow> string \<Rightarrow> nat) \<Rightarrow> FileAnalysisResult \<Rightarrow> FileAnalysisResult" where
  "check_file_consistency h fr =
     (let styles = analyze_documentation_styles (elements fr) in
      if length styles > 1 then
        (case find (\<lambda>e. truthy (docstring e)) (elements fr) of
           None \<Rightarrow> fr
         | Some e \<Rightarrow>
             fr\<lparr>file_issues := file_issues fr @
               [new_issue e ''inconsistent_style'' ''low''
                  (''File uses multiple documentation styles: '' @ str_join '', '' (set_iter h styles))
                  ''Use consistent documentation style throughout the file'']\<rparr>)
      else fr)"

text \<open>\<^verbatim>\<open>evaluate_file\<close>\<close>

definition evaluate_file_step ::
  "ServerConfig \<Rightarrow> (string list \<Rightarrow> string \<Rightarrow> nat) \<Rightarrow> (CodeElement \<Rightarrow> DocumentationIssue list)
     \<Rightarrow> CodeElement list \<times> DocumentationIssue list \<Rightarrow> CodeElement
     \<Rightarrow> CodeElement list \<times> DocumentationIssue list" where
  "evaluate_file_step cfg h clarity st e =
     (case st of (done, found) \<Rightarrow>
        if truthy (docstring e) then
          (case evaluate_element cfg h clarity e of (e', new) \<Rightarrow> (done @ [e'], found @ new))
        else (done @ [e], found))"

definition evaluate_file ::
  "ServerConfig \<Rightarrow> (string list \<Rightarrow> string \<Rightarrow> nat) \<Rightarrow> (CodeElement \<Rightarrow> DocumentationIssue list)
     \<Rightarrow> FileAnalysisResult \<Rightarrow> FileAnalysisResult" where
  "evaluate_file cfg h clarity fr =
     (case foldl (evaluate_file_step cfg h clarity) ([], file_issues fr) (elements fr) of
        (evaluated, found) \<Rightarrow>
          let fr1 = fr\<lparr>elements := evaluated, file_issues := found\<rparr> in
          if evaluate_consistency (analysis cfg) then check_file_consistency h fr1 else fr1)"

text \<open>\<^verbatim>\<open>_extract_summary_pattern\<close>\<close>

definition extract_summary_pattern :: "string \<Rightarrow> string option" where
  "extract_summary_pattern text =
     (let ws = str_words (str_lower text) in
      if length ws \<ge> 2 then
        (if hd ws \<in> set [''returns'', ''gets'', ''sets'', ''creates'', ''deletes'', ''updates'']
         then Some (hd ws @ ''_pattern'')
         else if hd ws \<in> set [''a'', ''an'', ''the''] \<and> length ws \<ge> 3
         then Some (ws ! 1 @ ''_pattern'')
         else None)
      else None)"

text \<open>
  \<^verbatim>\<open>_collect_terminology\<close>. The terms are the matches of
  \<^verbatim>\<open>\b[A-Z][a-z]+(?:[A-Z][a-z]+)*\b\<close>; each goes into the set of its lower-case form. No
  count of the occurrences is kept.
\<close>

definition term_re :: regex where
  "term_re =
     seqs [WordB, Chr is_upper_AZ, plus (Chr is_lower_az),
           Star (Seq (Chr is_upper_AZ) (plus (Chr is_lower_az))), WordB]"

definition re_findall :: "regex \<Rightarrow> string \<Rightarrow> string list" where
  "re_findall r s = map (\<lambda>m. slice s (fst m) (fst (snd m))) (re_finditer r s)"

definition add_term :: "(string \<times> string list) list \<Rightarrow> string \<Rightarrow> (string \<times> string list) list" where
  "add_term table word =
     AList.update (str_lower word)
       (set_add word (case map_of table (str_lower word) of None \<Rightarrow> [] | Some vs \<Rightarrow> vs)) table"

definition count_pattern :: "(string \<times> nat) list \<Rightarrow> string \<Rightarrow> (string \<times> nat) list" where
  "count_pattern counter pattern =
     AList.update pattern ((case map_of counter pattern of None \<Rightarrow> 0 | Some k \<Rightarrow> k) + 1) counter"

definition collect_element :: "EvaluatorState \<Rightarrow> CodeElement \<Rightarrow> EvaluatorState" where
  "collect_element st e =
     (if truthy (docstring e) then
        (let st1 = st\<lparr>project_terminology :=
                        foldl add_term (project_terminology st) (re_findall term_re (the (docstring e)))\<rparr>
         in if truthy (summary e) then
              (case extract_summary_pattern (the (summary e)) of
                 None \<Rightarrow> st1
               | Some pattern \<Rightarrow>
                   if pattern \<noteq> [] then
                     st1\<lparr>project_patterns := count_pattern (project_patterns st1) pattern\<rparr>
                   else st1)
            else st1)
      else st)"

definition collect_terminology :: "EvaluatorState \<Rightarrow> FileAnalysisResult \<Rightarrow> EvaluatorState" where
  "collect_terminology st fr = foldl collect_element st (elements fr)"

text \<open>
  \<^verbatim>\<open>max(variations, key=lambda x: self.project_terminology[term_lower])\<close>: \<^verbatim>\<open>max\<close> keeps the
  first member whose key no later key exceeds; the keys are sets, and one set exceeds
  another when it properly contains it.
\<close>

definition max_by_set_key :: "(string \<Rightarrow> string list) \<Rightarrow> string list \<Rightarrow> string" where
  "max_by_set_key key xs =
     foldl (\<lambda>best x. if set (key best) \<subset> set (key x) then x else best) (hd xs) (tl xs)"

definition most_common_variation ::
  "(string list \<Rightarrow> string \<Rightarrow> nat) \<Rightarrow> (string \<times> string list) list \<Rightarrow> string \<Rightarrow> string list \<Rightarrow> string" where
  "most_common_variation h table term_lower variations =
     max_by_set_key (\<lambda>x. case map_of table term_lower of None \<Rightarrow> [] | Some vs \<Rightarrow> vs)
       (set_iter h variations)"

text \<open>\<^verbatim>\<open>_check_terminology_consistency\<close>\<close>

definition check_terminology_consistency ::
  "(string list \<Rightarrow> string \<Rightarrow> nat) \<Rightarrow> EvaluatorState \<Rightarrow> CodeElement \<Rightarrow> DocumentationIssue list" where
  "check_terminology_consistency h st e =
     concat (map (\<lambda>(term_lower, variations).
       if length variations > 1 then
         concat (map (\<lambda>variation.
           if str_contains (the (docstring e)) variation then
             (let most_common = most_common_variation h (project_terminology st) term_lower variations in
              if variation \<noteq> most_common then
                [new_issue e ''terminology_inconsistency'' ''low''
                   (''Inconsistent terminology: '' @ quoted variation @ '' vs '' @ quoted most_common)
                   (''Use consistent terminology: '' @ quoted most_common)]
              else [])
           else []) (set_iter h variations))
       else []) (project_terminology st))"

text \<open>\<^verbatim>\<open>_check_cross_file_consistency\<close>\<close>

definition check_cross_file_consistency ::
  "(string list \<Rightarrow> string \<Rightarrow> nat) \<Rightarrow> EvaluatorState \<Rightarrow> FileAnalysisResult \<Rightarrow> DocumentationIssue list" where
  "check_cross_file_consistency h st fr =
     concat (map (\<lambda>e. if truthy (docstring e) then check_terminology_consistency h st e else [])
                 (elements fr))"

text \<open>
  \<^verbatim>\<open>evaluate_project\<close>: collect the terms of every file, then check every file and put
  the new issues at the end of its issues. The summary fields of the project result
  are not touched.
\<close>

definition evaluate_project ::
  "ServerConfig \<Rightarrow> (string list \<Rightarrow> string \<Rightarrow> nat) \<Rightarrow> EvaluatorState \<Rightarrow> ProjectAnalysisResult
     \<Rightarrow> ProjectAnalysisResult \<times> EvaluatorState" where
  "evaluate_project cfg h st pr =
     (if \<not> evaluate_consistency (analysis cfg) then (pr, st)
      else let st' = foldl collect_terminology st (files pr) in
        (pr\<lparr>files := map (\<lambda>fr. fr\<lparr>file_issues := file_issues fr @ check_cross_file_consistency h st' fr\<rparr>)
                          (files pr)\<rparr>, st'))"

subsection \<open>The orchestrator (\<^verbatim>\<open>core/orchestrator.py\<close>)\<close>

text \<open>\<^verbatim>\<open>_detect_language\<close>\<close>

definition detect_language :: "ServerConfig \<Rightarrow> Path \<Rightarrow> string option" where
  "detect_language cfg fp =
     map_option fst (find (\<lambda>(lang, config). str_lower (suffix fp) \<in> set (extensions config))
                          (languages cfg))"

text \<open>The file result that \<^verbatim>\<open>_analyze_file\<close> creates and gives the parsed elements to.\<close>

definition new_file_result :: "Path \<Rightarrow> string \<Rightarrow> CodeElement list \<Rightarrow> FileAnalysisResult" where
  "new_file_result fp lang els =
     \<lparr>result_file_path = fp, language = lang, elements = els, file_issues = [],
      coverage_score = 0, total_elements = 0, documented_elements = 0\<rparr>"

text \<open>
  \<^verbatim>\<open>_analyze_file\<close>: parse, check, evaluate. A file whose language is not configured
  gives \<^verbatim>\<open>None\<close>.
\<close>

definition analyze_file ::
  "ServerConfig \<Rightarrow> (string list \<Rightarrow> string \<Rightarrow> nat) \<Rightarrow> (CodeElement \<Rightarrow> DocumentationIssue list)
     \<Rightarrow> (string \<Rightarrow> string) \<Rightarrow> Path \<times> (py_error + ast) \<Rightarrow> FileAnalysisResult option" where
  "analyze_file cfg h clarity cleandoc input =
     (case input of (fp, outcome) \<Rightarrow>
        (case detect_language cfg fp of
           None \<Rightarrow> None
         | Some lang \<Rightarrow>
             (case parse_file cleandoc fp outcome of
                Inl err \<Rightarrow> None
              | Inr els \<Rightarrow>
                  Some (evaluate_file cfg h clarity (check_file cfg (new_file_result fp lang els))))))"

text \<open>
  \<^verbatim>\<open>_calculate_project_metrics\<close>: the loop over the files with its four accumulators,
  then the assignments to the project result.
\<close>

definition count_issue :: "(string \<times> nat) list \<Rightarrow> DocumentationIssue \<Rightarrow> (string \<times> nat) list" where
  "count_issue hist issue =
     AList.update (severity issue)
       ((case map_of hist (severity issue) of None \<Rightarrow> 0 | Some k \<Rightarrow> k) + 1) hist"

definition metrics_step ::
  "nat \<times> nat \<times> (string \<times> nat) list \<times> (string \<times> real list) list \<Rightarrow> FileAnalysisResult
     \<Rightarrow> nat \<times> nat \<times> (string \<times> nat) list \<times> (string \<times> real list) list" where
  "metrics_step acc fr =
     (case acc of (n_total, n_documented, hist, by_language) \<Rightarrow>
        (n_total + total_elements fr,
         n_documented + documented_elements fr,
         foldl count_issue hist (file_issues fr),
         AList.update (language fr)
           ((case map_of by_language (language fr) of None \<Rightarrow> [] | Some scores \<Rightarrow> scores)
              @ [coverage_score fr]) by_language))"

definition calculate_project_metrics :: "ProjectAnalysisResult \<Rightarrow> ProjectAnalysisResult" where
  "calculate_project_metrics pr =
     (case foldl metrics_step (0, 0, [], []) (files pr) of
        (n_total, n_documented, hist, by_language) \<Rightarrow>
          pr\<lparr>project_total_elements := n_total,
             project_documented_elements := n_documented,
             overall_coverage := (if n_total > 0 then real n_documented / real n_total else 1),
             coverage_by_language :=
               foldl (\<lambda>acc (lang, scores). AList.update lang (sum_list scores / real (length scores)) acc)
                     (coverage_by_language pr) by_language,
             issues_by_severity := hist\<rparr>)"

text \<open>
  \<^verbatim>\<open>analyze_project\<close>. The files that \<^verbatim>\<open>_get_files_to_analyze\<close> found come with what
  reading and parsing each of them gave. The metrics are calculated first, the
  project-wide consistency is evaluated second.
\<close>

definition analyze_project ::
  "ServerConfig \<Rightarrow> (string list \<Rightarrow> string \<Rightarrow> nat) \<Rightarrow> (CodeElement \<Rightarrow> DocumentationIssue list)
     \<Rightarrow> (string \<Rightarrow> string) \<Rightarrow> EvaluatorState \<Rightarrow> Path \<Rightarrow> (Path \<times> (py_error + ast)) list
     \<Rightarrow> ProjectAnalysisResult \<times> EvaluatorState" where
  "analyze_project cfg h clarity cleandoc st project_root inputs =
     (let project_result =
            \<lparr>project_path = project_root,
             files = List.map_filter (analyze_file cfg h clarity cleandoc) inputs,
             overall_coverage = 0, project_total_elements = 0, project_documented_elements = 0,
             issues_by_severity = [], coverage_by_language = []\<rparr>
      in evaluate_project cfg h st (calculate_project_metrics project_result))"


subsection \<open>Facts about the data model and the syntax tree\<close>

lemma set_end_line_number_sel [simp]:
  "name (set_end_line_number v e) = name e"
  "element_type (set_end_line_number v e) = element_type e"
  "file_path (set_end_line_number v e) = file_path e"
  "line_number (set_end_line_number v e) = line_number e"
  "end_line_number (set_end_line_number v e) = v"
  "docstring (set_end_line_number v e) = docstring e"
  "summary (set_end_line_number v e) = summary e"
  "description (set_end_line_number v e) = description e"
  "parameters (set_end_line_number v e) = parameters e"
  "return_info (set_end_line_number v e) = return_info e"
  "exceptions (set_end_line_number v e) = exceptions e"
  "methods (set_end_line_number v e) = methods e"
  "module_classes (set_end_line_number v e) = module_classes e"
  "module_functions (set_end_line_number v e) = module_functions e"
  "status (set_end_line_number v e) = status e"
  "issues (set_end_line_number v e) = issues e"
  "visibility (set_end_line_number v e) = visibility e"
  by (simp_all add: set_end_line_number_def)

lemma set_docstring_sel [simp]:
  "name (set_docstring v e) = name e"
  "element_type (set_docstring v e) = element_type e"
  "file_path (set_docstring v e) = file_path e"
  "line_number (set_docstring v e) = line_number e"
  "end_line_number (set_docstring v e) = end_line_number e"
  "docstring (set_docstring v e) = v"
  "summary (set_docstring v e) = summary e"
  "description (set_docstring v e) = description e"
  "parameters (set_docstring v e) = parameters e"
  "return_info (set_docstring v e) = return_info e"
  "exceptions (set_docstring v e) = exceptions e"
  "methods (set_docstring v e) = methods e"
  "module_classes (set_docstring v e) = module_classes e"
  "module_functions (set_docstring v e) = module_functions e"
  "status (set_docstring v e) = status e"
  "issues (set_docstring v e) = issues e"
  "visibility (set_docstring v e) = visibility e"
  by (simp_all add: set_docstring_def)

lemma set_summary_sel [simp]:
  "name (set_summary v e) = name e"
  "element_type (set_summary v e) = element_type e"
  "file_path (set_summary v e) = file_path e"
  "line_number (set_summary v e) = line_number e"
  "end_line_number (set_summary v e) = end_line_number e"
  "docstring (set_summary v e) = docstring e"
  "summary (set_summary v e) = v"
  "description (set_summary v e) = description e"
  "parameters (set_summary v e) = parameters e"
  "return_info (set_summary v e) = return_info e"
  "exceptions (set_summary v e) = exceptions e"
  "methods (set_summary v e) = methods e"
  "module_classes (set_summary v e) = module_classes e"
  "module_functions (set_summary v e) = module_functions e"
  "status (set_summary v e) = status e"
  "issues (set_summary v e) = issues e"
  "visibility (set_summary v e) = visibility e"
  by (simp_all add: set_summary_def)

lemma set_description_sel [simp]:
  "name (set_description v e) = name e"
  "element_type (set_description v e) = element_type e"
  "file_path (set_description v e) = file_path e"
  "line_number (set_description v e) = line_number e"
  "end_line_number (set_description v e) = end_line_number e"
  "docstring (set_description v e) = docstring e"
  "summary (set_description v e) = summary e"
  "description (set_description v e) = v"
  "parameters (set_description v e) = parameters e"
  "return_info (set_description v e) = return_info e"
  "exceptions (set_description v e) = exceptions e"
  "methods (set_description v e) = methods e"
  "module_classes (set_description v e) = module_classes e"
  "module_functions (set_description v e) = module_functions e"
  "status (set_description v e) = status e"
  "issues (set_description v e) = issues e"
  "visibility (set_description v e) = visibility e"
  by (simp_all add: set_description_def)

lemma set_parameters_sel [simp]:
  "name (set_parameters v e) = name e"
  "element_type (set_parameters v e) = element_type e"
  "file_path (set_parameters v e) = file_path e"
  "line_number (set_parameters v e) = line_number e"
  "end_line_number (set_parameters v e) = end_line_number e"
  "docstring (set_parameters v e) = docstring e"
  "summary (set_parameters v e) = summary e"
  "description (set_parameters v e) = description e"
  "parameters (set_parameters v e) = v"
  "return_info (set_parameters v e) = return_info e"
  "exceptions (set_parameters v e) = exceptions e"
  "methods (set_parameters v e) = methods e"
  "module_classes (set_parameters v e) = module_classes e"
  "module_functions (set_parameters v e) = module_functions e"
  "status (set_parameters v e) = status e"
  "issues (set_parameters v e) = issues e"
  "visibility (set_parameters v e) = visibility e"
  by (simp_all add: set_parameters_def)

lemma set_return_info_sel [simp]:
  "name (set_return_info v e) = name e"
  "element_type (set_return_info v e) = element_type e"
  "file_path (set_return_info v e) = file_path e"
  "line_number (set_return_info v e) = line_number e"
  "end_line_number (set_return_info v e) = end_line_number e"
  "docstring (set_return_info v e) = docstring e"
  "summary (set_return_info v e) = summary e"
  "description (set_return_info v e) = description e"
  "parameters (set_return_info v e) = parameters e"
  "return_info (set_return_info v e) = v"
  "exceptions (set_return_info v e) = exceptions e"
  "methods (set_return_info v e) = methods e"
  "module_classes (set_return_info v e) = module_classes e"
  "module_functions (set_return_info v e) = module_functions e"
  "status (set_return_info v e) = status e"
  "issues (set_return_info v e) = issues e"
  "visibility (set_return_info v e) = visibility e"
  by (simp_all add: set_return_info_def)

lemma set_exceptions_sel [simp]:
  "name (set_exceptions v e) = name e"
  "element_type (set_exceptions v e) = element_type e"
  "file_path (set_exceptions v e) = file_path e"
  "line_number (set_exceptions v e) = line_number e"
  "end_line_number (set_exceptions v e) = end_line_number e"
  "docstring (set_exceptions v e) = docstring e"
  "summary (set_exceptions v e) = summary e"
  "description (set_exceptions v e) = description e"
  "parameters (set_exceptions v e) = parameters e"
  "return_info (set_exceptions v e) = return_info e"
  "exceptions (set_exceptions v e) = v"
  "methods (set_exceptions v e) = methods e"
  "module_classes (set_exceptions v e) = module_classes e"
  "module_functions (set_exceptions v e) = module_functions e"
  "status (set_exceptions v e) = status e"
  "issues (set_exceptions v e) = issues e"
  "visibility (set_exceptions v e) = visibility e"
  by (simp_all add: set_exceptions_def)

lemma set_methods_sel [simp]:
  "name (set_methods v e) = name e"
  "element_type (set_methods v e) = element_type e"
  "file_path (set_methods v e) = file_path e"
  "line_number (set_methods v e) = line_number e"
  "end_line_number (set_methods v e) = end_line_number e"
  "docstring (set_methods v e) = docstring e"
  "summary (set_methods v e) = summary e"
  "description (set_methods v e) = description e"
  "parameters (set_methods v e) = parameters e"
  "return_info (set_methods v e) = return_info e"
  "exceptions (set_methods v e) = exceptions e"
  "methods (set_methods v e) = v"
  "module_classes (set_methods v e) = module_classes e"
  "module_functions (set_methods v e) = module_functions e"
  "status (set_methods v e) = status e"
  "issues (set_methods v e) = issues e"
  "visibility (set_methods v e) = visibility e"
  by (simp_all add: set_methods_def)

lemma set_module_classes_sel [simp]:
  "name (set_module_classes v e) = name e"
  "element_type (set_module_classes v e) = element_type e"
  "file_path (set_module_classes v e) = file_path e"
  "line_number (set_module_classes v e) = line_number e"
  "end_line_number (set_module_classes v e) = end_line_number e"
  "docstring (set_module_classes v e) = docstring e"
  "summary (set_module_classes v e) = summary e"
  "description (set_module_classes v e) = description e"
  "parameters (set_module_classes v e) = parameters e"
  "return_info (set_module_classes v e) = return_info e"
  "exceptions (set_module_classes v e) = exceptions e"
  "methods (set_module_classes v e) = methods e"
  "module_classes (set_module_classes v e) = v"
  "module_functions (set_module_classes v e) = module_functions e"
  "status (set_module_classes v e) = status e"
  "issues (set_module_classes v e) = issues e"
  "visibility (set_module_classes v e) = visibility e"
  by (simp_all add: set_module_classes_def)

lemma set_module_functions_sel [simp]:
  "name (set_module_functions v e) = name e"
  "element_type (set_module_functions v e) = element_type e"
  "file_path (set_module_functions v e) = file_path e"
  "line_number (set_module_functions v e) = line_number e"
  "end_line_number (set_module_functions v e) = end_line_number e"
  "docstring (set_module_functions v e) = docstring e"
  "summary (set_module_functions v e) = summary e"
  "description (set_module_functions v e) = description e"
  "parameters (set_module_functions v e) = parameters e"
  "return_info (set_module_functions v e) = return_info e"
  "exceptions (set_module_functions v e) = exceptions e"
  "methods (set_module_functions v e) = methods e"
  "module_classes (set_module_functions v e) = module_classes e"
  "module_functions (set_module_functions v e) = v"
  "status (set_module_functions v e) = status e"
  "issues (set_module_functions v e) = issues e"
  "visibility (set_module_functions v e) = visibility e"
  by (simp_all add: set_module_functions_def)

lemma set_status_sel [simp]:
  "name (set_status v e) = name e"
  "element_type (set_status v e) = element_type e"
  "file_path (set_status v e) = file_path e"
  "line_number (set_status v e) = line_number e"
  "end_line_number (set_status v e) = end_line_number e"
  "docstring (set_status v e) = docstring e"
  "summary (set_status v e) = summary e"
  "description (set_status v e) = description e"
  "parameters (set_status v e) = parameters e"
  "return_info (set_status v e) = return_info e"
  "exceptions (set_status v e) = exceptions e"
  "methods (set_status v e) = methods e"
  "module_classes (set_status v e) = module_classes e"
  "module_functions (set_status v e) = module_functions e"
  "status (set_status v e) = v"
  "issues (set_status v e) = issues e"
  "visibility (set_status v e) = visibility e"
  by (simp_all add: set_status_def)

lemma set_issues_sel [simp]:
  "name (set_issues v e) = name e"
  "element_type (set_issues v e) = element_type e"
  "file_path (set_issues v e) = file_path e"
  "line_number (set_issues v e) = line_number e"
  "end_line_number (set_issues v e) = end_line_number e"
  "docstring (set_issues v e) = docstring e"
  "summary (set_issues v e) = summary e"
  "description (set_issues v e) = description e"
  "parameters (set_issues v e) = parameters e"
  "return_info (set_issues v e) = return_info e"
  "exceptions (set_issues v e) = exceptions e"
  "methods (set_issues v e) = methods e"
  "module_classes (set_issues v e) = module_classes e"
  "module_functions (set_issues v e) = module_functions e"
  "status (set_issues v e) = status e"
  "issues (set_issues v e) = v"
  "visibility (set_issues v e) = visibility e"
  by (simp_all add: set_issues_def)

lemma set_visibility_sel [simp]:
  "name (set_visibility v e) = name e"
  "element_type (set_visibility v e) = element_type e"
  "file_path (set_visibility v e) = file_path e"
  "line_number (set_visibility v e) = line_number e"
  "end_line_number (set_visibility v e) = end_line_number e"
  "docstring (set_visibility v e) = docstring e"
  "summary (set_visibility v e) = summary e"
  "description (set_visibility v e) = description e"
  "parameters (set_visibility v e) = parameters e"
  "return_info (set_visibility v e) = return_info e"
  "exceptions (set_visibility v e) = exceptions e"
  "methods (set_visibility v e) = methods e"
  "module_classes (set_visibility v e) = module_classes e"
  "module_functions (set_visibility v e) = module_functions e"
  "status (set_visibility v e) = status e"
  "issues (set_visibility v e) = issues e"
  "visibility (set_visibility v e) = v"
  by (simp_all add: set_visibility_def)

lemma new_element_sel [simp]:
  "name (new_element n t p l) = n"
  "element_type (new_element n t p l) = t"
  "docstring (new_element n t p l) = None"
  "parameters (new_element n t p l) = []"
  "methods (new_element n t p l) = []"
  "status (new_element n t p l) = MISSING"
  "visibility (new_element n t p l) = ''public''"
  by (simp_all add: new_element_def)










lemma parse_docstring_info_methods [simp]: "methods (parse_docstring_info e) = methods e"
  by (simp add: parse_docstring_info_def info_raises_def info_returns_def info_args_def
      info_summary_def Let_def split: option.splits)

lemma parse_docstring_info_visibility [simp]: "visibility (parse_docstring_info e) = visibility e"
  by (simp add: parse_docstring_info_def info_raises_def info_returns_def info_args_def
      info_summary_def Let_def split: option.splits)


definition example_path :: Path where
  "example_path = \<lparr>path_str = ''pkg/shapes.py'', stem = ''shapes'', suffix = ''.py''\<rparr>"



text \<open>
  C9. Whatever reading and parsing the file gave, \<open>parse_file\<close> returns a list and
  raises nothing; when they raised, the list is empty.
\<close>

theorem parse_file_never_raises:
  "(\<exists>els. parse_file cleandoc fp outcome = Inr els) \<and>
   (\<forall>err. parse_file cleandoc fp (Inl err) = Inr [])"
  by (simp add: parse_file_def parse_file_body_def split: sum.splits prod.splits)

subsection \<open>The status of an element\<close>

lemma new_issue_sel [simp]:
  "severity (new_issue e t s m g) = s"
  "issue_type (new_issue e t s m g) = t"
  "message (new_issue e t s m g) = m"
  "element (new_issue e t s m g) = e"
  by (simp_all add: new_issue_def)

definition checker_severity :: "string \<Rightarrow> bool" where
  "checker_severity s = (s = ''low'' \<or> s = ''medium'' \<or> s = ''high'')"

lemma checker_severity_simps [simp]:
  "checker_severity ''low''" "checker_severity ''medium''" "checker_severity ''high''"
  by (simp_all add: checker_severity_def)

lemma presence_severity:
  "i \<in> set (check_presence_issues acfg e) \<Longrightarrow> checker_severity (severity i)"
  by (auto simp: check_presence_issues_def split: if_splits)

lemma google_severity:
  "i \<in> set (check_google_format e) \<Longrightarrow> checker_severity (severity i)"
  by (auto simp: check_google_format_def split: if_splits)

lemma numpy_severity:
  "i \<in> set (check_numpy_format e) \<Longrightarrow> checker_severity (severity i)"
  by (auto simp: check_numpy_format_def split: if_splits)

lemma sphinx_severity:
  "i \<in> set (check_sphinx_format e) \<Longrightarrow> checker_severity (severity i)"
  by (auto simp: check_sphinx_format_def split: if_splits)

lemma javadoc_severity:
  "i \<in> set (check_javadoc_format e) \<Longrightarrow> checker_severity (severity i)"
  by (auto simp: check_javadoc_format_def split: if_splits)

lemma jsdoc_severity:
  "i \<in> set (check_jsdoc_format e) \<Longrightarrow> checker_severity (severity i)"
  by (auto simp: check_jsdoc_format_def split: if_splits)

lemma format_severity:
  "i \<in> set (check_format_issues cfg e lang) \<Longrightarrow> checker_severity (severity i)"
  by (auto simp: check_format_issues_def split: if_splits option.splits
      dest: google_severity numpy_severity sphinx_severity javadoc_severity jsdoc_severity)

lemma parameters_doc_severity:
  "i \<in> set (check_parameters_documentation e) \<Longrightarrow> checker_severity (severity i)"
  by (auto simp: check_parameters_documentation_def Let_def split: if_splits option.splits)

lemma return_doc_severity:
  "i \<in> set (check_return_documentation e) \<Longrightarrow> checker_severity (severity i)"
  by (auto simp: check_return_documentation_def split: if_splits)

lemma exceptions_doc_severity:
  "i \<in> set (check_exceptions_documentation e) \<Longrightarrow> checker_severity (severity i)"
  by (auto simp: check_exceptions_documentation_def Let_def split: if_splits)

lemma completeness_severity:
  "i \<in> set (check_completeness_issues e) \<Longrightarrow> checker_severity (severity i)"
  by (auto simp: check_completeness_issues_def split: if_splits
      dest: parameters_doc_severity return_doc_severity exceptions_doc_severity)

lemma element_issues_severity:
  "i \<in> set (element_issues cfg e lang) \<Longrightarrow> checker_severity (severity i)"
  by (auto simp: element_issues_def split: if_splits
      dest: presence_severity format_severity completeness_severity)

lemma count_severity_zero: "count_severity s found = 0 \<longleftrightarrow> (\<forall>i \<in> set found. severity i \<noteq> s)"
  by (simp add: count_severity_def filter_empty_conv)

lemma no_counted_issue_none:
  assumes sev: "\<And>i. i \<in> set found \<Longrightarrow> checker_severity (severity i)"
    and h: "count_severity ''high'' found = 0"
    and m: "count_severity ''medium'' found = 0"
    and l: "count_severity ''low'' found = 0"
  shows "found = []"
proof (cases found)
  case Nil
  then show ?thesis .
next
  case (Cons i rest)
  then have mem: "i \<in> set found" by simp
  from sev[OF mem] have "severity i = ''low'' \<or> severity i = ''medium'' \<or> severity i = ''high''"
    unfolding checker_severity_def .
  moreover from h mem have "severity i \<noteq> ''high''" unfolding count_severity_zero by (rule bspec)
  moreover from m mem have "severity i \<noteq> ''medium''" unfolding count_severity_zero by (rule bspec)
  moreover from l mem have "severity i \<noteq> ''low''" unfolding count_severity_zero by (rule bspec)
  ultimately have False by metis
  then show ?thesis ..
qed


text \<open>
  The status as the specification derives it, the first clause that applies: no
  documentation, \<open>MISSING\<close>; a critical or a high issue, \<open>INCOMPLETE\<close>; more than two
  medium issues, \<open>INCOMPLETE\<close>; one or two medium issues or more than three low
  issues, \<open>OUTDATED\<close>; one to three low issues and no medium issue, \<open>GOOD\<close>; no issue at
  all, \<open>EXCELLENT\<close>. Where no clause applies the result is \<open>None\<close>.
\<close>

definition status_by_precedence ::
  "bool \<Rightarrow> nat \<Rightarrow> nat \<Rightarrow> nat \<Rightarrow> nat \<Rightarrow> nat \<Rightarrow> DocumentationStatus option" where
  "status_by_precedence has_doc n_critical n_high n_medium n_low n_issues =
     (if \<not> has_doc then Some MISSING
      else if n_critical > 0 \<or> n_high > 0 then Some INCOMPLETE
      else if n_medium > 2 then Some INCOMPLETE
      else if (n_medium = 1 \<or> n_medium = 2) \<or> n_low > 3 then Some OUTDATED
      else if 1 \<le> n_low \<and> n_low \<le> 3 \<and> n_medium = 0 then Some GOOD
      else if n_issues = 0 then Some EXCELLENT
      else None)"

lemma check_element_parts:
  "snd (check_element cfg e lang) = element_issues cfg e lang"
  "status (fst (check_element cfg e lang)) = determine_status e (element_issues cfg e lang)"
  "docstring (fst (check_element cfg e lang)) = docstring e"
  "visibility (fst (check_element cfg e lang)) = visibility e"
  "name (fst (check_element cfg e lang)) = name e"
  by (simp_all add: check_element_def Let_def)

lemma precedence_of_counts:
  fixes c h m l n :: nat
  assumes "h = 0 \<and> m = 0 \<and> l = 0 \<Longrightarrow> n = 0"
  shows "Some (if \<not> d then MISSING
               else if c > 0 then INCOMPLETE
               else if h > 0 then INCOMPLETE
               else if m > 2 then INCOMPLETE
               else if m > 0 \<or> l > 3 then OUTDATED
               else if l > 0 then GOOD
               else EXCELLENT) = status_by_precedence d c h m l n"
  using assms unfolding status_by_precedence_def by (cases "m = 0"; cases "l = 0") auto

text \<open>
  C1. The status that \<open>check_element\<close> gives an element is the status that the
  precedence of the specification derives from the element's documentation and from
  the issues that the presence, format and completeness stages raised for it.
\<close>

theorem status_follows_precedence:
  "Some (status (fst (check_element cfg e lang))) =
     status_by_precedence (truthy (docstring e))
       (count_severity ''critical'' (snd (check_element cfg e lang)))
       (count_severity ''high'' (snd (check_element cfg e lang)))
       (count_severity ''medium'' (snd (check_element cfg e lang)))
       (count_severity ''low'' (snd (check_element cfg e lang)))
       (length (snd (check_element cfg e lang)))"
proof -
  let ?found = "element_issues cfg e lang"
  have none: "count_severity ''high'' ?found = 0 \<and> count_severity ''medium'' ?found = 0 \<and>
      count_severity ''low'' ?found = 0 \<Longrightarrow> length ?found = 0"
    using no_counted_issue_none[of ?found, OF element_issues_severity] by simp
  have "Some (determine_status e ?found) =
     status_by_precedence (truthy (docstring e))
       (count_severity ''critical'' ?found) (count_severity ''high'' ?found)
       (count_severity ''medium'' ?found) (count_severity ''low'' ?found) (length ?found)"
    unfolding determine_status_def Let_def by (rule precedence_of_counts[OF none])
  then show ?thesis by (simp only: check_element_parts)
qed

subsection \<open>Coverage\<close>

lemma foldl_coverage_step:
  "foldl coverage_step (t, d) els =
     (t + length (filter should_have_documentation els),
      d + length (filter (\<lambda>e. status e \<noteq> MISSING) (filter should_have_documentation els)))"
  by (induction els arbitrary: t d) (simp_all add: coverage_step_def)

lemma calculate_coverage_fields:
  "total_elements (calculate_coverage fr) = length (filter should_have_documentation (elements fr))"
  "documented_elements (calculate_coverage fr) =
     length (filter (\<lambda>e. status e \<noteq> MISSING) (filter should_have_documentation (elements fr)))"
  "coverage_score (calculate_coverage fr) =
     (if filter should_have_documentation (elements fr) = [] then 1
      else real (length (filter (\<lambda>e. status e \<noteq> MISSING) (filter should_have_documentation (elements fr))))
           / real (length (filter should_have_documentation (elements fr))))"
  "elements (calculate_coverage fr) = elements fr"
  "file_issues (calculate_coverage fr) = file_issues fr"
  by (simp_all add: calculate_coverage_def foldl_coverage_step)

lemma foldl_check_file_step:
  "foldl (check_file_step cfg lang) (checked, found) els =
     (checked @ map (\<lambda>e. fst (check_element cfg e lang)) els,
      found @ concat (map (\<lambda>e. snd (check_element cfg e lang)) els))"
  by (induction els arbitrary: checked found) (simp_all add: check_file_step_def split: prod.splits)


lemma should_have_documentation_checked:
  "should_have_documentation (fst (check_element cfg e lang)) = should_have_documentation e"
  by (simp add: should_have_documentation_def check_element_parts)

lemma determine_status_missing:
  "determine_status e found \<noteq> MISSING \<longleftrightarrow> truthy (docstring e)"
  by (simp add: determine_status_def Let_def)

lemma check_file_coverage_score:
  "coverage_score (check_file cfg fr) =
     coverage_score (calculate_coverage
       (fr\<lparr>elements := map (\<lambda>e. fst (check_element cfg e (language fr))) (elements fr)\<rparr>))"
  by (simp add: check_file_def foldl_check_file_step calculate_coverage_def split: prod.splits)

text \<open>
  C3. The coverage of a file result is the number of its elements that should be
  documented and are documented, divided by the number of its elements that should
  be documented, and it is 1 when no element should be documented. After
  \<open>check_file\<close> an element counts as documented exactly when its status is not
  \<open>MISSING\<close>, which is when it has a documentation text.
\<close>

theorem coverage_is_documented_fraction:
  "coverage_score (calculate_coverage fr) =
     (if filter should_have_documentation (elements fr) = [] then 1
      else real (length (filter (\<lambda>e. status e \<noteq> MISSING) (filter should_have_documentation (elements fr))))
           / real (length (filter should_have_documentation (elements fr)))) \<and>
   coverage_score (check_file cfg fr) =
     (if filter should_have_documentation (elements fr) = [] then 1
      else real (length (filter (\<lambda>e. truthy (docstring e)) (filter should_have_documentation (elements fr))))
           / real (length (filter should_have_documentation (elements fr))))"
proof
  show "coverage_score (calculate_coverage fr) =
     (if filter should_have_documentation (elements fr) = [] then 1
      else real (length (filter (\<lambda>e. status e \<noteq> MISSING) (filter should_have_documentation (elements fr))))
           / real (length (filter should_have_documentation (elements fr))))"
    by (rule calculate_coverage_fields(3))
next
  let ?chk = "\<lambda>e. fst (check_element cfg e (language fr))"
  have should: "filter should_have_documentation (map ?chk (elements fr)) =
      map ?chk (filter should_have_documentation (elements fr))"
    by (simp add: filter_map comp_def should_have_documentation_checked)
  have documented: "filter (\<lambda>e. status e \<noteq> MISSING) (map ?chk els) =
      map ?chk (filter (\<lambda>e. truthy (docstring e)) els)" for els
    by (simp add: filter_map comp_def check_element_parts determine_status_missing)
  show "coverage_score (check_file cfg fr) =
     (if filter should_have_documentation (elements fr) = [] then 1
      else real (length (filter (\<lambda>e. truthy (docstring e)) (filter should_have_documentation (elements fr))))
           / real (length (filter should_have_documentation (elements fr))))"
    unfolding check_file_coverage_score calculate_coverage_fields
    by (simp add: should documented)
qed

subsection \<open>Private elements\<close>

definition later_stage_type :: "string \<Rightarrow> bool" where
  "later_stage_type t = (t \<noteq> ''missing_documentation'')"

lemma later_stage_type_simps [simp]:
  "later_stage_type ''format_violation''"
  "later_stage_type ''missing_summary''"
  "later_stage_type ''missing_parameter_doc''"
  "later_stage_type ''empty_parameter_doc''"
  "later_stage_type ''missing_return_doc''"
  "later_stage_type ''missing_exception_doc''"
  by (simp_all add: later_stage_type_def)

lemma google_issue_type:
  "i \<in> set (check_google_format e) \<Longrightarrow> later_stage_type (issue_type i)"
  by (auto simp: check_google_format_def split: if_splits)

lemma numpy_issue_type:
  "i \<in> set (check_numpy_format e) \<Longrightarrow> later_stage_type (issue_type i)"
  by (auto simp: check_numpy_format_def split: if_splits)

lemma sphinx_issue_type:
  "i \<in> set (check_sphinx_format e) \<Longrightarrow> later_stage_type (issue_type i)"
  by (auto simp: check_sphinx_format_def split: if_splits)

lemma javadoc_issue_type:
  "i \<in> set (check_javadoc_format e) \<Longrightarrow> later_stage_type (issue_type i)"
  by (auto simp: check_javadoc_format_def split: if_splits)

lemma jsdoc_issue_type:
  "i \<in> set (check_jsdoc_format e) \<Longrightarrow> later_stage_type (issue_type i)"
  by (auto simp: check_jsdoc_format_def split: if_splits)

lemma format_issue_type:
  "i \<in> set (check_format_issues cfg e lang) \<Longrightarrow> later_stage_type (issue_type i)"
  by (auto simp: check_format_issues_def split: if_splits option.splits
      dest: google_issue_type numpy_issue_type sphinx_issue_type javadoc_issue_type jsdoc_issue_type)

lemma parameters_doc_issue_type:
  "i \<in> set (check_parameters_documentation e) \<Longrightarrow> later_stage_type (issue_type i)"
  by (auto simp: check_parameters_documentation_def Let_def split: if_splits option.splits)

lemma return_doc_issue_type:
  "i \<in> set (check_return_documentation e) \<Longrightarrow> later_stage_type (issue_type i)"
  by (auto simp: check_return_documentation_def split: if_splits)

lemma exceptions_doc_issue_type:
  "i \<in> set (check_exceptions_documentation e) \<Longrightarrow> later_stage_type (issue_type i)"
  by (auto simp: check_exceptions_documentation_def Let_def split: if_splits)

lemma completeness_issue_type:
  "i \<in> set (check_completeness_issues e) \<Longrightarrow> later_stage_type (issue_type i)"
  by (auto simp: check_completeness_issues_def split: if_splits
      dest: parameters_doc_issue_type return_doc_issue_type exceptions_doc_issue_type)

lemma private_not_should:
  "visibility e = ''private'' \<Longrightarrow> \<not> should_have_documentation e"
  by (simp add: should_have_documentation_def)

lemma private_presence_none:
  "visibility e = ''private'' \<Longrightarrow> check_presence_issues acfg e = []"
  by (simp add: check_presence_issues_def private_not_should)

definition with_presence :: "bool \<Rightarrow> ServerConfig \<Rightarrow> ServerConfig" where
  "with_presence b cfg = cfg\<lparr>analysis := (analysis cfg)\<lparr>check_presence := b\<rparr>\<rparr>"

text \<open>
  C4. For a private element the presence check raises nothing, none of the issues
  that \<open>check_element\<close> raises is a missing-documentation issue, and the checked
  element, its status and its issues are the same with the presence check switched
  on and switched off.
\<close>

theorem private_untouched_by_presence:
  assumes "visibility e = ''private''"
  shows "check_presence_issues acfg e = [] \<and>
         ''missing_documentation'' \<notin> set (map issue_type (snd (check_element cfg e lang))) \<and>
         check_element (with_presence True cfg) e lang = check_element (with_presence False cfg) e lang"
proof (intro conjI)
  show "check_presence_issues acfg e = []"
    using assms by (rule private_presence_none)
next
  have "element_issues cfg e lang =
      (if truthy (docstring e) \<and> check_format (analysis cfg) then check_format_issues cfg e lang else []) @
      (if truthy (docstring e) \<and> check_completeness (analysis cfg) then check_completeness_issues e else [])"
    using assms by (simp add: element_issues_def private_presence_none)
  then have "later_stage_type (issue_type i)" if "i \<in> set (element_issues cfg e lang)" for i
    using that format_issue_type[of i cfg e lang] completeness_issue_type[of i e]
    by (auto split: if_splits)
  then show "''missing_documentation'' \<notin> set (map issue_type (snd (check_element cfg e lang)))"
    unfolding check_element_parts later_stage_type_def by fastforce
next
  have "element_issues (with_presence True cfg) e lang = element_issues (with_presence False cfg) e lang"
    using assms
    by (simp add: element_issues_def with_presence_def private_presence_none check_format_issues_def)
  then show "check_element (with_presence True cfg) e lang = check_element (with_presence False cfg) e lang"
    by (simp add: check_element_def)
qed

definition private_class :: CodeElement where
  "private_class = set_visibility ''private''
     (new_element ''__Cache'' CLASS \<lparr>path_str = ''pkg/cache.py'', stem = ''cache'', suffix = ''.py''\<rparr> 3)"

theorem private_untouched_by_presence_witness:
  "visibility private_class = ''private'' \<and>
   check_presence_issues (analysis get_default_config) private_class = [] \<and>
   ''missing_documentation'' \<notin> set (map issue_type (snd (check_element get_default_config private_class ''python''))) \<and>
   check_element (with_presence True get_default_config) private_class ''python'' =
     check_element (with_presence False get_default_config) private_class ''python''"
proof -
  have v: "visibility private_class = ''private''"
    by (simp add: private_class_def)
  from private_untouched_by_presence[OF v, of "analysis get_default_config" get_default_config "''python''"] v
  show ?thesis by simp
qed

subsection \<open>Visibility and parameters of functions\<close>


text \<open>
  The tree of
  \<^verbatim>\<open>def _helper(): pass\<close>
  \<^verbatim>\<open>def __mangle(): pass\<close>
  \<^verbatim>\<open>def __str__(): pass\<close>
\<close>

definition helpers_tree :: ast where
  "helpers_tree = Module
     [FunctionDef ''_helper'' [] [] [Other []] None 1 None,
      FunctionDef ''__mangle'' [] [] [Other []] None 2 None,
      FunctionDef ''__str__'' [] [] [Other []] None 3 None]"

definition helpers_path :: Path where
  "helpers_path = \<lparr>path_str = ''pkg/helpers.py'', stem = ''helpers'', suffix = ''.py''\<rparr>"

text \<open>
  C5 fails on functions. The three functions of \<open>helpers_tree\<close> come out public, where
  their names are protected, private and special.
\<close>

theorem function_visibility_not_classified:
  "(case parse_file cleandoc helpers_path (Inr helpers_tree) of
      Inl err \<Rightarrow> []
    | Inr els \<Rightarrow> map (\<lambda>e. (name e, element_type e, visibility e)) els) =
     [(''helpers'', MODULE, ''public''), (''_helper'', FUNCTION, ''public''),
      (''__mangle'', FUNCTION, ''public''), (''__str__'', FUNCTION, ''public'')] \<and>
   map get_visibility [''_helper'', ''__mangle'', ''__str__''] = [''protected'', ''private'', ''special'']"
  by code_simp

text \<open>
  A tree that \<^verbatim>\<open>ast.parse\<close> returns has no \<^verbatim>\<open>parent\<close> attribute on any node, so
  \<open>is_method\<close> is false and every argument becomes a parameter.
\<close>

lemma default_step_names:
  "default_step k (Inr ps) d = Inr ps' \<Longrightarrow> map param_name ps' = map param_name ps"
  by (cases d) (auto simp: default_step_def Let_def map_update list_update_same_conv
      split: if_splits sum.splits)

lemma foldl_default_step_error: "foldl (default_step k) (Inl err) ds = Inl err"
  by (induction ds) (simp_all add: default_step_def)

lemma foldl_default_step_names:
  "foldl (default_step k) (Inr ps) ds = Inr ps' \<Longrightarrow> map param_name ps' = map param_name ps"
proof (induction ds arbitrary: ps)
  case Nil
  then show ?case by simp
next
  case (Cons d ds)
  show ?case
  proof (cases "default_step k (Inr ps) d")
    case (Inl err)
    with Cons.prems show ?thesis by (simp add: foldl_default_step_error)
  next
    case (Inr qs)
    with Cons.prems have "foldl (default_step k) (Inr qs) ds = Inr ps'" by simp
    from Cons.IH[OF this] default_step_names[OF Inr] show ?thesis by simp
  qed
qed

lemma apply_defaults_names:
  "apply_defaults ds ps = Inr ps' \<Longrightarrow> map param_name ps' = map param_name ps"
  unfolding apply_defaults_def by (rule foldl_default_step_names)

lemma extract_parameters_no_parent:
  "extract_parameters (FunctionDef n a d b r l None) = Inr ps \<Longrightarrow> map param_name ps = map arg a"
  using apply_defaults_names[of d "map new_parameter a" ps]
  by (auto simp: new_parameter_def comp_def split: if_splits)

text \<open>
  The tree of
  \<^verbatim>\<open>class Shape:\<close>
  \<^verbatim>\<open>    def area(self, scale): pass\<close>
  \<^verbatim>\<open>    def make(cls, sides): pass\<close>
\<close>

definition receiver_tree :: ast where
  "receiver_tree = Module [ClassDef ''Shape''
     [FunctionDef ''area''
        [\<lparr>arg = ''self'', annotation = None\<rparr>, \<lparr>arg = ''scale'', annotation = None\<rparr>]
        [] [Other []] None 2 None,
      FunctionDef ''make''
        [\<lparr>arg = ''cls'', annotation = None\<rparr>, \<lparr>arg = ''sides'', annotation = None\<rparr>]
        [] [Other []] None 3 None]
     1 (Some 3)]"

text \<open>
  C6 fails. The methods of \<open>receiver_tree\<close> keep \<^verbatim>\<open>self\<close> and \<^verbatim>\<open>cls\<close> as their first
  parameters, in the flat list of elements and in the methods of the class, and they
  come out as functions, not methods.
\<close>

theorem receiver_stays_in_parameters:
  "(case parse_file cleandoc example_path (Inr receiver_tree) of
      Inl err \<Rightarrow> []
    | Inr els \<Rightarrow>
        map (\<lambda>e. (name e, element_type e, map param_name (parameters e),
                   map (\<lambda>m. (name m, map param_name (parameters m))) (methods e))) els) =
     [(''shapes'', MODULE, [], []),
      (''Shape'', CLASS, [], [(''area'', [''self'', ''scale'']), (''make'', [''cls'', ''sides''])]),
      (''area'', FUNCTION, [''self'', ''scale''], []),
      (''make'', FUNCTION, [''cls'', ''sides''], [])]"
  by code_simp

subsection \<open>The functions of a class body\<close>


text \<open>The elements that \<open>parse_file\<close> returns for a tree.\<close>

definition parsed_elements :: "(string \<Rightarrow> string) \<Rightarrow> Path \<Rightarrow> ast \<Rightarrow> CodeElement list" where
  "parsed_elements cleandoc fp tree =
     (case parse_file cleandoc fp (Inr tree) of Inl err \<Rightarrow> [] | Inr els \<Rightarrow> els)"

text \<open>
  In the elements of \<open>receiver_tree\<close> the module refers to the class at position 1 and
  to the two functions at positions 2 and 3 of the flat list.
\<close>

lemma module_refers_to_flat_list:
  "map module_classes (take 1 (parsed_elements id example_path receiver_tree)) = [[1]] \<and>
   map module_functions (take 1 (parsed_elements id example_path receiver_tree)) = [[2, 3]] \<and>
   map name (parsed_elements id example_path receiver_tree) = [''shapes'', ''Shape'', ''area'', ''make'']"
  by code_simp


text \<open>
  \<open>parse_function\<close> builds an element when every default that it unparses can be
  unparsed, and only then.
\<close>

lemma parse_function_built:
  "(\<exists>e. parse_function cleandoc (FunctionDef n a d b r l p) fp = Some e) \<longleftrightarrow>
   (\<exists>ps. extract_parameters (FunctionDef n a d b r l p) = Inr ps)"
  by (auto simp: Let_def split: sum.splits)










subsection \<open>Parameters documented in Google style\<close>

text \<open>
  The function \<^verbatim>\<open>def add(a, b)\<close> whose documentation, as \<^verbatim>\<open>ast.get_docstring\<close> returns it, is
  \<^verbatim>\<open>Add.\<close>, an empty line, \<^verbatim>\<open>Args:\<close>, \<^verbatim>\<open>    a: x\<close>, \<^verbatim>\<open>    b: y\<close>.
\<close>

definition add_doc :: string where
  "add_doc = ''Add.'' @ [NL, NL] @ ''Args:'' @ [NL] @ ''    a: x'' @ [NL] @ ''    b: y''"

definition add_node :: ast where
  "add_node = FunctionDef ''add''
     [\<lparr>arg = ''a'', annotation = None\<rparr>, \<lparr>arg = ''b'', annotation = None\<rparr>]
     [] [ExprStr add_doc, Other []] None 1 None"

definition add_element :: CodeElement where
  "add_element =
     set_description (Some (''Args:'' @ [NL] @ ''    a: x'' @ [NL] @ ''    b: y''))
       (set_summary (Some ''Add.'')
          (set_docstring (Some add_doc)
             (set_parameters
                [\<lparr>param_name = ''a'', type_hint = None, default_value = None,
                  param_description = None, is_required = True\<rparr>,
                 \<lparr>param_name = ''b'', type_hint = None, default_value = None,
                  param_description = None, is_required = True\<rparr>]
                (new_element ''add'' FUNCTION example_path 1))))"

lemma add_element_parsed: "parse_function (\<lambda>d. d) add_node example_path = Some add_element"
  by code_simp

lemma add_element_fields:
  "docstring add_element = Some add_doc"
  "map param_name (parameters add_element) = [''a'', ''b'']"
  "element_type add_element = FUNCTION"
  by (simp_all add: add_element_def)

text \<open>
  The lazy group of the \<^verbatim>\<open>Args:\<close> pattern ends before the first following line that
  starts with a name and a colon, which is the line of \<^verbatim>\<open>b\<close>: the section is the line of
  \<^verbatim>\<open>a\<close> alone.
\<close>

lemma add_args_section:
  "map_option (\<lambda>m. group_str add_doc m 1) (re_search args_section_re add_doc) = Some ''    a: x''"
  by code_simp

lemma add_documented_checker: "extract_documented_parameters add_doc = [(''a'', ''x'')]"
  by code_simp

lemma add_documented_evaluator: "documented_parameter_names add_doc = [''a'']"
  by code_simp

lemma add_completeness:
  "map (\<lambda>i. (issue_type i, severity i, message i)) (check_completeness_issues add_element) =
     [(''missing_parameter_doc'', ''medium'', ''Parameter '' @ quoted ''b'' @ '' is not documented'')]"
  by code_simp

lemma add_outdated: "check_outdated_information add_element = []"
  by code_simp

lemma set_iter_one: "set_iter h [x] = [x]"
  by (simp add: set_iter_def)

lemma set_iter_two:
  "set_iter h [x, y] = (if h [x, y] x \<le> h [x, y] y then [x, y] else [y, x])"
  by (simp add: set_iter_def)

lemma add_sync:
  "map (\<lambda>i. (issue_type i, severity i, message i)) (check_synchronization h add_element) =
     [(''sync_missing_param'', ''medium'',
       ''Parameter '' @ quoted ''b'' @ '' exists in code but not documented'')]"
proof -
  have actual: "foldl (\<lambda>acc p. if param_name p = ''self'' \<or> param_name p = ''cls'' then acc
                                else set_add (param_name p) acc) [] (parameters add_element) = [''a'', ''b'']"
    by code_simp
  have callable: "is_callable add_element" "truthy (docstring add_element)"
    by code_simp+
  show ?thesis
    unfolding check_synchronization_def check_parameter_sync_def Let_def add_outdated
    using callable
    by (simp add: add_element_fields add_documented_evaluator actual set_iter_one set_iter_two)
qed

text \<open>
  C2 fails. For \<open>add_element\<close> the completeness check raises a
  \<^verbatim>\<open>missing_parameter_doc\<close> issue for \<^verbatim>\<open>b\<close> and the synchronization check raises a
  \<^verbatim>\<open>sync_missing_param\<close> issue for \<^verbatim>\<open>b\<close>, in whatever order sets are visited.
\<close>

theorem google_args_second_parameter_lost:
  "map issue_type (check_completeness_issues add_element) = [''missing_parameter_doc''] \<and>
   map issue_type (check_synchronization h add_element) = [''sync_missing_param''] \<and>
   map message (check_completeness_issues add_element @ check_synchronization h add_element) =
     [''Parameter '' @ quoted ''b'' @ '' is not documented'',
      ''Parameter '' @ quoted ''b'' @ '' exists in code but not documented'']"
proof -
  have c: "map (\<lambda>i. (issue_type i, severity i, message i)) (check_completeness_issues add_element) =
     [(''missing_parameter_doc'', ''medium'', ''Parameter '' @ quoted ''b'' @ '' is not documented'')]"
    by (rule add_completeness)
  have s: "map (\<lambda>i. (issue_type i, severity i, message i)) (check_synchronization h add_element) =
     [(''sync_missing_param'', ''medium'',
       ''Parameter '' @ quoted ''b'' @ '' exists in code but not documented'')]"
    by (rule add_sync)
  from c have c1: "map issue_type (check_completeness_issues add_element) = [''missing_parameter_doc'']"
    and c2: "map message (check_completeness_issues add_element) =
       [''Parameter '' @ quoted ''b'' @ '' is not documented'']"
    by (auto simp: map_eq_Cons_conv)
  from s have s1: "map issue_type (check_synchronization h add_element) = [''sync_missing_param'']"
    and s2: "map message (check_synchronization h add_element) =
       [''Parameter '' @ quoted ''b'' @ '' exists in code but not documented'']"
    by (auto simp: map_eq_Cons_conv)
  from c1 c2 s1 s2 show ?thesis by simp
qed

subsection \<open>Terminology across files and the project's histogram\<close>

text \<open>
  Two projects of three files each; every file is a module whose only statement is its
  documentation. In \<open>project_one\<close> two files write \<^verbatim>\<open>UserId\<close> and one writes \<^verbatim>\<open>Userid\<close>;
  in \<open>project_two\<close> one file writes \<^verbatim>\<open>UserId\<close> and two write \<^verbatim>\<open>Userid\<close>. In both the
  first file writes \<^verbatim>\<open>UserId\<close> and the second \<^verbatim>\<open>Userid\<close>.
\<close>

definition doc_major :: string where "doc_major = ''the UserId of the caller''"
definition doc_minor :: string where "doc_minor = ''the Userid of the callee''"

definition py_path :: "string \<Rightarrow> Path" where
  "py_path n = \<lparr>path_str = ''pkg/'' @ n @ ''.py'', stem = n, suffix = ''.py''\<rparr>"

definition doc_module :: "string \<Rightarrow> string \<Rightarrow> Path \<times> (py_error + ast)" where
  "doc_module n doc = (py_path n, Inr (Module [ExprStr doc]))"

definition project_one :: "(Path \<times> (py_error + ast)) list" where
  "project_one = [doc_module ''a'' doc_major, doc_module ''b'' doc_minor, doc_module ''c'' doc_major]"

definition project_two :: "(Path \<times> (py_error + ast)) list" where
  "project_two = [doc_module ''a'' doc_major, doc_module ''b'' doc_minor, doc_module ''c'' doc_minor]"

definition fresh_evaluator :: EvaluatorState where
  "fresh_evaluator = \<lparr>project_terminology = [], project_patterns = []\<rparr>"

text \<open>The result of analysing one such file: one element, no issue.\<close>

definition module_result :: "string \<Rightarrow> string \<Rightarrow> FileAnalysisResult" where
  "module_result n doc =
     \<lparr>result_file_path = py_path n, language = ''python'',
      elements = [set_status EXCELLENT (set_docstring (Some doc) (new_element n MODULE (py_path n) 1))],
      file_issues = [], coverage_score = 1, total_elements = 1, documented_elements = 1\<rparr>"

text \<open>The messages of all issues of all files of the project result.\<close>

definition project_messages ::
  "(string list \<Rightarrow> string \<Rightarrow> nat) \<Rightarrow> (CodeElement \<Rightarrow> DocumentationIssue list) \<Rightarrow> (string \<Rightarrow> string)
     \<Rightarrow> (Path \<times> (py_error + ast)) list \<Rightarrow> string list" where
  "project_messages h clarity cleandoc inputs =
     concat (map (\<lambda>fr. map message (file_issues fr))
       (files (fst (analyze_project clarity_off_config h clarity cleandoc fresh_evaluator
                      (py_path ''pkg'') inputs))))"

definition flags :: "string \<Rightarrow> string \<Rightarrow> string" where
  "flags variation most_common =
     ''Inconsistent terminology: '' @ quoted variation @ '' vs '' @ quoted most_common"

lemma analyze_a_major:
  "analyze_file clarity_off_config h clarity cleandoc (doc_module ''a'' doc_major) = Some (module_result ''a'' doc_major)"
  by code_simp

lemma analyze_b_minor:
  "analyze_file clarity_off_config h clarity cleandoc (doc_module ''b'' doc_minor) = Some (module_result ''b'' doc_minor)"
  by code_simp

lemma analyze_c_major:
  "analyze_file clarity_off_config h clarity cleandoc (doc_module ''c'' doc_major) = Some (module_result ''c'' doc_major)"
  by code_simp

lemma analyze_c_minor:
  "analyze_file clarity_off_config h clarity cleandoc (doc_module ''c'' doc_minor) = Some (module_result ''c'' doc_minor)"
  by code_simp

lemma collect_one:
  "collect_terminology (collect_terminology (collect_terminology fresh_evaluator
       (module_result ''a'' doc_major)) (module_result ''b'' doc_minor)) (module_result ''c'' doc_major) =
   \<lparr>project_terminology = [(''userid'', [''UserId'', ''Userid''])], project_patterns = []\<rparr>"
  by code_simp

lemma collect_two:
  "collect_terminology (collect_terminology (collect_terminology fresh_evaluator
       (module_result ''a'' doc_major)) (module_result ''b'' doc_minor)) (module_result ''c'' doc_minor) =
   \<lparr>project_terminology = [(''userid'', [''UserId'', ''Userid''])], project_patterns = []\<rparr>"
  by code_simp

lemma contains_variants:
  "str_contains doc_major ''UserId''" "\<not> str_contains doc_major ''Userid''"
  "str_contains doc_minor ''Userid''" "\<not> str_contains doc_minor ''UserId''"
  by code_simp+

text \<open>
  The key of \<^verbatim>\<open>max\<close> is the same set for every spelling, so \<^verbatim>\<open>max\<close> returns the spelling
  that the loop over the set visits first.
\<close>

lemma most_common_is_first:
  "xs \<noteq> [] \<Longrightarrow> max_by_set_key (\<lambda>x. k) xs = hd xs"
proof -
  have "foldl (\<lambda>best x. if set k \<subset> set k then x else best) b ys = b" for b ys
    by (induction ys arbitrary: b) simp_all
  then show ?thesis by (simp add: max_by_set_key_def)
qed

lemma terminology_messages:
  assumes doc: "docstring e = Some doc"
    and table: "project_terminology st = [(''userid'', [''UserId'', ''Userid''])]"
  shows "map message (check_terminology_consistency h st e) =
     (if h [''UserId'', ''Userid''] ''UserId'' \<le> h [''UserId'', ''Userid''] ''Userid''
      then (if str_contains doc ''Userid'' then [flags ''Userid'' ''UserId''] else [])
      else (if str_contains doc ''UserId'' then [flags ''UserId'' ''Userid''] else []))"
proof (cases "h [''UserId'', ''Userid''] ''UserId'' \<le> h [''UserId'', ''Userid''] ''Userid''")
  case True
  then have it: "set_iter h [''UserId'', ''Userid''] = [''UserId'', ''Userid'']"
    by (simp add: set_iter_two)
  have mc: "most_common_variation h [(''userid'', [''UserId'', ''Userid''])] ''userid''
      [''UserId'', ''Userid''] = ''UserId''"
    unfolding most_common_variation_def it by (subst most_common_is_first) simp_all
  show ?thesis
    unfolding check_terminology_consistency_def table
    using True by (simp add: doc mc it flags_def Let_def)
next
  case False
  then have it: "set_iter h [''UserId'', ''Userid''] = [''Userid'', ''UserId'']"
    by (simp add: set_iter_two)
  have mc: "most_common_variation h [(''userid'', [''UserId'', ''Userid''])] ''userid''
      [''UserId'', ''Userid''] = ''Userid''"
    unfolding most_common_variation_def it by (subst most_common_is_first) simp_all
  show ?thesis
    unfolding check_terminology_consistency_def table
    using False by (simp add: doc mc it flags_def Let_def)
qed

lemma module_result_fields:
  "file_issues (module_result n doc) = []"
  "map docstring (elements (module_result n doc)) = [Some doc]"
  by (simp_all add: module_result_def)

lemma cross_file_messages:
  assumes table: "project_terminology st = [(''userid'', [''UserId'', ''Userid''])]"
    and doc: "doc \<noteq> []"
  shows "map message (check_cross_file_consistency h st (module_result n doc)) =
     (if h [''UserId'', ''Userid''] ''UserId'' \<le> h [''UserId'', ''Userid''] ''Userid''
      then (if str_contains doc ''Userid'' then [flags ''Userid'' ''UserId''] else [])
      else (if str_contains doc ''UserId'' then [flags ''UserId'' ''Userid''] else []))"
proof -
  let ?e = "set_status EXCELLENT (set_docstring (Some doc) (new_element n MODULE (py_path n) 1))"
  have d: "docstring ?e = Some doc" by simp
  have "check_cross_file_consistency h st (module_result n doc) = check_terminology_consistency h st ?e"
    using doc by (simp add: check_cross_file_consistency_def module_result_def truthy_def)
  then show ?thesis
    using terminology_messages[OF d table, of h] by simp
qed

text \<open>
  The histogram is built from the issues that the files have before the project-wide
  pass, and that pass leaves it as it is.
\<close>

lemma foldl_metrics_step_hist:
  "fst (snd (snd (foldl metrics_step (t, d, hist, bl) fs))) =
     foldl count_issue hist (concat (map file_issues fs))"
  by (induction fs arbitrary: t d hist bl) (simp_all add: metrics_step_def)

lemma metrics_histogram:
  "issues_by_severity (calculate_project_metrics pr) =
     foldl count_issue [] (concat (map file_issues (files pr)))"
  "files (calculate_project_metrics pr) = files pr"
proof -
  obtain t d hist bl where f: "foldl metrics_step (0, 0, [], []) (files pr) = (t, d, hist, bl)"
    by (cases "foldl metrics_step (0, 0, [], []) (files pr)") auto
  have "hist = foldl count_issue [] (concat (map file_issues (files pr)))"
    using foldl_metrics_step_hist[of 0 0 "[]" "[]" "files pr"] f by simp
  with f show "issues_by_severity (calculate_project_metrics pr) =
     foldl count_issue [] (concat (map file_issues (files pr)))"
    by (simp add: calculate_project_metrics_def)
  from f show "files (calculate_project_metrics pr) = files pr"
    by (simp add: calculate_project_metrics_def)
qed

lemma evaluate_project_fields:
  assumes "evaluate_consistency (analysis cfg)"
  shows "issues_by_severity (fst (evaluate_project cfg h st pr)) = issues_by_severity pr"
    and "files (fst (evaluate_project cfg h st pr)) =
       map (\<lambda>fr. fr\<lparr>file_issues := file_issues fr @
              check_cross_file_consistency h (foldl collect_terminology st (files pr)) fr\<rparr>) (files pr)"
  using assms by (simp_all add: evaluate_project_def Let_def)

lemma clarity_off_consistency: "evaluate_consistency (analysis clarity_off_config)"
  by (simp add: clarity_off_config_def get_default_config_def)

lemma analyzed_one:
  "List.map_filter (analyze_file clarity_off_config h clarity cleandoc) project_one =
     [module_result ''a'' doc_major, module_result ''b'' doc_minor, module_result ''c'' doc_major]"
  by (simp add: project_one_def analyze_a_major analyze_b_minor analyze_c_major)

lemma analyzed_two:
  "List.map_filter (analyze_file clarity_off_config h clarity cleandoc) project_two =
     [module_result ''a'' doc_major, module_result ''b'' doc_minor, module_result ''c'' doc_minor]"
  by (simp add: project_two_def analyze_a_major analyze_b_minor analyze_c_minor)

lemma docs_not_empty: "doc_major \<noteq> []" "doc_minor \<noteq> []"
  by (simp_all add: doc_major_def doc_minor_def)

lemma project_one_messages:
  "project_messages h clarity cleandoc project_one =
     (if h [''UserId'', ''Userid''] ''UserId'' \<le> h [''UserId'', ''Userid''] ''Userid''
      then [flags ''Userid'' ''UserId'']
      else [flags ''UserId'' ''Userid'', flags ''UserId'' ''Userid''])"
  unfolding project_messages_def analyze_project_def Let_def
  by (simp add: evaluate_project_fields[OF clarity_off_consistency] metrics_histogram analyzed_one
      collect_one module_result_fields cross_file_messages docs_not_empty contains_variants)

lemma project_two_messages:
  "project_messages h clarity cleandoc project_two =
     (if h [''UserId'', ''Userid''] ''UserId'' \<le> h [''UserId'', ''Userid''] ''Userid''
      then [flags ''Userid'' ''UserId'', flags ''Userid'' ''UserId'']
      else [flags ''UserId'' ''Userid''])"
  unfolding project_messages_def analyze_project_def Let_def
  by (simp add: evaluate_project_fields[OF clarity_off_consistency] metrics_histogram analyzed_two
      collect_two module_result_fields cross_file_messages docs_not_empty contains_variants)

text \<open>
  C7 fails. Whatever the order in which sets are visited, the spelling that is flagged
  is the same in both projects, although the majority spelling of \<open>project_one\<close> is
  \<^verbatim>\<open>UserId\<close> and that of \<open>project_two\<close> is \<^verbatim>\<open>Userid\<close>: either \<^verbatim>\<open>Userid\<close> is flagged in both,
  which flags the majority of \<open>project_two\<close> twice, or \<^verbatim>\<open>UserId\<close> is flagged in both, which
  flags the majority of \<open>project_one\<close> twice.
\<close>

theorem terminology_flags_by_order_not_by_majority:
  "(project_messages h clarity cleandoc project_one = [flags ''Userid'' ''UserId''] \<and>
    project_messages h clarity cleandoc project_two = [flags ''Userid'' ''UserId'', flags ''Userid'' ''UserId''])
   \<or>
   (project_messages h clarity cleandoc project_one = [flags ''UserId'' ''Userid'', flags ''UserId'' ''Userid''] \<and>
    project_messages h clarity cleandoc project_two = [flags ''UserId'' ''Userid''])"
  unfolding project_one_messages project_two_messages by simp

text \<open>
  C8 fails. For \<open>project_one\<close> the histogram of the project result is empty, while the
  files of the same result hold at least one issue, of severity low, which the
  project-wide pass added after the histogram was built.
\<close>

theorem histogram_misses_consistency_issues:
  "issues_by_severity (fst (analyze_project clarity_off_config h clarity cleandoc fresh_evaluator
       (py_path ''pkg'') project_one)) = [] \<and>
   1 \<le> count_severity ''low'' (concat (map file_issues
       (files (fst (analyze_project clarity_off_config h clarity cleandoc fresh_evaluator
          (py_path ''pkg'') project_one)))))"
proof
  show "issues_by_severity (fst (analyze_project clarity_off_config h clarity cleandoc fresh_evaluator
       (py_path ''pkg'') project_one)) = []"
    unfolding analyze_project_def Let_def
    by (simp add: evaluate_project_fields[OF clarity_off_consistency] metrics_histogram analyzed_one
        module_result_fields)
next
  let ?pr = "fst (analyze_project clarity_off_config h clarity cleandoc fresh_evaluator
       (py_path ''pkg'') project_one)"
  have low: "severity i = ''low''" if "i \<in> set (check_terminology_consistency h st e)" for i st e
    using that unfolding check_terminology_consistency_def
    by (auto simp: Let_def split: if_splits)
  have all_low: "severity i = ''low''" if "i \<in> set (concat (map file_issues (files ?pr)))" for i
    using that unfolding analyze_project_def Let_def
    by (auto simp: evaluate_project_fields[OF clarity_off_consistency] metrics_histogram analyzed_one
        module_result_fields check_cross_file_consistency_def split: if_splits dest: low)
  have "length (concat (map file_issues (files ?pr))) =
      length (project_messages h clarity cleandoc project_one)"
    by (simp add: project_messages_def length_concat comp_def)
  also have "\<dots> \<ge> 1"
    unfolding project_one_messages by simp
  finally have "1 \<le> length (concat (map file_issues (files ?pr)))" .
  moreover have "filter (\<lambda>i. severity i = ''low'') (concat (map file_issues (files ?pr))) =
      concat (map file_issues (files ?pr))"
    using all_low by (simp add: filter_id_conv)
  ultimately show "1 \<le> count_severity ''low'' (concat (map file_issues (files ?pr)))"
    by (simp add: count_severity_def)
qed

end
